theory Spec2Isabelle
  imports Main
begin

section \<open>Data model\<close>

text \<open>
  The action of \<^verbatim>\<open>src/index.ts\<close> resolves partial configurations into operation
  descriptors and publishes one comment per descriptor through the host API. The three
  error kinds are the ones a pipeline can end with.
\<close>

datatype error = ValueError | ConfigError | HostApiError

record styleOptions =
  theme :: string
  layout :: string

record resourceOptions =
  requestId :: int

record repoOptions =
  owner :: string
  repo :: string

record configOptions =
  styleOptions :: styleOptions
  resourceOptions :: resourceOptions
  repoOptions :: repoOptions

text \<open>
  A number of the program is a double. The model holds the numbers that are integers, that
  a double holds exactly, and that a template string prints as their decimal digits: the
  safe integers, of magnitude at most \<open>2\<^sup>5\<^sup>3 - 1\<close>. Fractions and larger numbers are not
  values of the model.
\<close>

typedef jsint = "{n :: int. \<bar>n\<bar> \<le> 9007199254740991}"
  morphisms int_of jsint
  by (rule exI [of _ 0]) simp

text \<open>
  \<^verbatim>\<open>Partial<ConfigOptions>\<close> as a batch file supplies it: every group and every field of
  a group may be absent (\<open>None\<close> is JavaScript's \<^verbatim>\<open>undefined\<close>). The identifier is a
  number.
\<close>

record partialStyle =
  p_theme :: "string option"
  p_layout :: "string option"

record partialResource =
  p_requestId :: "jsint option"

record partialConfig =
  p_styleOptions :: "partialStyle option"
  p_resourceOptions :: "partialResource option"
  p_repoOptions :: "repoOptions option"

definition emptyPartial :: partialConfig where
  "emptyPartial = \<lparr>p_styleOptions = None, p_resourceOptions = None, p_repoOptions = None\<rparr>"

text \<open>
  \<^verbatim>\<open>github.context\<close>: the commit hash, the repository, and the number of the pull request
  of the payload when the run was triggered by one.
\<close>

record githubContext =
  sha :: string
  ctx_repo :: repoOptions
  pull_request_number :: "jsint option"

text \<open>
  Everything the program reads and never writes: the ambient context, the single-run
  inputs with the defaults configured for them, the rendering endpoint
  (\<^verbatim>\<open>profile.requestOptions.url\<close>), and the files on disk, each with what loading it as a
  batch of partial configurations yields.
\<close>

record env =
  github_context :: githubContext
  inputs :: "string \<rightharpoonup> string"
  defaults :: "string \<rightharpoonup> string"
  request_url :: string
  files :: "string \<rightharpoonup> (error + partialConfig list)"

section \<open>JavaScript values, truthiness and template strings\<close>

datatype jsval = Undefined | Num jsint | Str string

text \<open>A number is truthy unless it is 0; a string, unless it is empty.\<close>

definition truthy_number :: "int \<Rightarrow> bool" where
  "truthy_number n = (n \<noteq> 0)"

fun truthy :: "jsval \<Rightarrow> bool" where
  "truthy Undefined = False"
| "truthy (Num n) = truthy_number (int_of n)"
| "truthy (Str s) = (s \<noteq> [])"

text \<open>The operator \<^verbatim>\<open>a || b\<close>: the left operand when it is truthy, else the right one.\<close>

definition js_or :: "jsval \<Rightarrow> jsval \<Rightarrow> jsval" where
  "js_or a b = (if truthy a then a else b)"

text \<open>The same operator where the left operand is a string or absent and the right one a string.\<close>

definition str_or :: "string option \<Rightarrow> string \<Rightarrow> string" where
  "str_or a b = (case a of None \<Rightarrow> b | Some s \<Rightarrow> if s = [] then b else s)"

text \<open>Optional chaining \<^verbatim>\<open>g?.f\<close>: absent when the group is absent.\<close>

definition chain :: "'g option \<Rightarrow> ('g \<Rightarrow> 'f option) \<Rightarrow> 'f option" where
  "chain g f = (case g of None \<Rightarrow> None | Some x \<Rightarrow> f x)"

definition num_opt :: "jsint option \<Rightarrow> jsval" where
  "num_opt x = (case x of None \<Rightarrow> Undefined | Some n \<Rightarrow> Num n)"

text \<open>Decimal rendering of an integer, as a template string prints a safe integer.\<close>

definition digit_char :: "nat \<Rightarrow> char" where
  "digit_char d = char_of (48 + d)"

definition is_digit :: "char \<Rightarrow> bool" where
  "is_digit c = (48 \<le> (of_char c :: nat) \<and> (of_char c :: nat) \<le> 57)"

definition digit_val :: "char \<Rightarrow> nat" where
  "digit_val c = of_char c - 48"

fun digits :: "nat \<Rightarrow> string" where
  "digits n = (if n < 10 then [digit_char n] else digits (n div 10) @ [digit_char (n mod 10)])"

definition show_int :: "int \<Rightarrow> string" where
  "show_int i = (if i < 0 then CHR ''-'' # digits (nat (- i)) else digits (nat i))"

fun template :: "jsval \<Rightarrow> string" where
  "template Undefined = ''undefined''"
| "template (Num n) = show_int (int_of n)"
| "template (Str s) = s"

section \<open>Helpers of the repository that the resolver calls\<close>

text \<open>
  Modelled from the spec: \<^verbatim>\<open>getProperty\<close> of \<^verbatim>\<open>utils/properties\<close> is not among the
  sources. The spec describes a named single-run input that is used when present and an
  ambient default otherwise, and lets absence propagate as the empty string.
\<close>

definition getProperty :: "env \<Rightarrow> string \<Rightarrow> string" where
  "getProperty env name =
     (case inputs env name of
        Some v \<Rightarrow> v
      | None \<Rightarrow> (case defaults env name of Some d \<Rightarrow> d | None \<Rightarrow> []))"

text \<open>
  Modelled from the spec: \<^verbatim>\<open>isNullOrUndefined\<close> of \<^verbatim>\<open>utils/validators\<close> is not among
  the sources. It holds when no tier has yielded any candidate.
\<close>

definition isNullOrUndefined :: "jsval \<Rightarrow> bool" where
  "isNullOrUndefined v = (v = Undefined)"

definition parse_digits :: "string \<Rightarrow> nat" where
  "parse_digits s = fold (\<lambda>c acc. 10 * acc + digit_val c) s 0"

definition numeral_string :: "string \<Rightarrow> bool" where
  "numeral_string s = (s \<noteq> [] \<and> list_all is_digit s)"

text \<open>
  Modelled from the spec: \<^verbatim>\<open>toInt\<close> of \<^verbatim>\<open>utils/commons\<close> is not among the sources. The
  spec says that the candidate is coerced to a base-10 integer, that the identifier must
  resolve to a strictly positive integer, and that resolution fails with \<open>ValueError\<close>
  for every candidate that is not an integer, that is negative or zero, or that is not
  representable as an integer. The only call after the check for an absent candidate is
  this one, so the coercion is where such a candidate fails. A numeral beyond the safe
  integers is not representable.
\<close>

definition max_safe_integer :: nat where
  "max_safe_integer = 9007199254740991"

definition toInt :: "string \<Rightarrow> error + int" where
  "toInt s =
     (if numeral_string s \<and> 0 < parse_digits s \<and> parse_digits s \<le> max_safe_integer
      then Inr (int (parse_digits s))
      else Inl ValueError)"

section \<open>Config resolver\<close>

text \<open>
  The three right-hand sides of \<^verbatim>\<open>buildConfigOptions\<close> (lines 72 to 77): an explicit
  value of the partial configuration, else the single-run input, else (for the identifier
  only) the pull-request number of the ambient context.
\<close>

definition resolveTheme :: "env \<Rightarrow> partialConfig \<Rightarrow> string" where
  "resolveTheme env options =
     str_or (chain (p_styleOptions options) p_theme) (getProperty env ''theme'')"

definition resolveLayout :: "env \<Rightarrow> partialConfig \<Rightarrow> string" where
  "resolveLayout env options =
     str_or (chain (p_styleOptions options) p_layout) (getProperty env ''layout'')"

definition resolveRequestId :: "env \<Rightarrow> partialConfig \<Rightarrow> jsval" where
  "resolveRequestId env options =
     js_or (js_or (num_opt (chain (p_resourceOptions options) p_requestId))
                  (Str (getProperty env ''requestId'')))
           (num_opt (pull_request_number (github_context env)))"

definition buildConfigOptions :: "env \<Rightarrow> partialConfig \<Rightarrow> error + configOptions" where
  "buildConfigOptions env options =
     (let themeV = resolveTheme env options;
          layoutV = resolveLayout env options;
          requestIdV = resolveRequestId env options
      in if isNullOrUndefined requestIdV then Inl ValueError
         else (case toInt (template requestIdV) of
                 Inl e \<Rightarrow> Inl e
               | Inr n \<Rightarrow>
                   Inr \<lparr>styleOptions = \<lparr>theme = themeV, layout = layoutV\<rparr>,
                        resourceOptions = \<lparr>requestId = n\<rparr>,
                        repoOptions = ctx_repo (github_context env)\<rparr>))"

section \<open>Host API\<close>

text \<open>
  The host is an external collaborator, reached through the client that line 18 builds
  from the token; it is no code of this repository. The model follows the capability set
  that the specification gives for it: list the comments of a thread, create a comment,
  update a comment. Its state is the set of issues and pull requests that exist, the
  comments on them in thread order, the login that the installed token authenticates
  as, and the number of comments that the host puts on one page of a listing (30 on
  \<^verbatim>\<open>api.github.com\<close>). Every request that reaches the host is recorded in \<open>calls\<close>,
  in the order in which the host serves them.
\<close>

record comment =
  comment_id :: int
  user_login :: string
  body :: string
  comment_repo :: repoOptions
  issue_number :: int

datatype call =
    ListComments repoOptions int
  | CreateComment repoOptions int string
  | UpdateComment repoOptions int string

record host =
  issues :: "(repoOptions \<times> int) list"
  comments :: "comment list"
  actor :: string
  per_page :: nat
  calls :: "call list"

definition record_call :: "call \<Rightarrow> host \<Rightarrow> host" where
  "record_call c h = h\<lparr>calls := calls h @ [c]\<rparr>"

definition thread :: "repoOptions \<Rightarrow> int \<Rightarrow> host \<Rightarrow> comment list" where
  "thread r n h = filter (\<lambda>c. comment_repo c = r \<and> issue_number c = n) (comments h)"

text \<open>
  \<^verbatim>\<open>listComments(owner, repo, issueNumber)\<close>, as lines 26 to 29 send it: one request
  that names no page and no page size. The host answers it with the first page of the
  thread, in thread order; an opaque failure when the resource does not exist.
\<close>

definition first_page :: "repoOptions \<Rightarrow> int \<Rightarrow> host \<Rightarrow> comment list" where
  "first_page r n h = take (per_page h) (thread r n h)"

definition listComments :: "repoOptions \<Rightarrow> int \<Rightarrow> host \<Rightarrow> (error + comment list) \<times> host" where
  "listComments r n h =
     (if (r, n) \<in> set (issues h)
      then (Inr (first_page r n h), record_call (ListComments r n) h)
      else (Inl HostApiError, record_call (ListComments r n) h))"

text \<open>The host numbers a new comment above every comment it holds, starting from 1.\<close>

definition fresh_id :: "host \<Rightarrow> int" where
  "fresh_id h = 1 + fold max (map comment_id (comments h)) 0"

text \<open>
  \<^verbatim>\<open>createComment(owner, repo, issueNumber, body)\<close>: a new comment at the end of the
  thread, authored by the identity of the token.
\<close>

definition createComment :: "repoOptions \<Rightarrow> int \<Rightarrow> string \<Rightarrow> host \<Rightarrow> (error + unit) \<times> host" where
  "createComment r n b h =
     (if (r, n) \<in> set (issues h)
      then (Inr (),
            (record_call (CreateComment r n b) h)
              \<lparr>comments := comments h @
                 [\<lparr>comment_id = fresh_id h, user_login = actor h, body = b,
                   comment_repo = r, issue_number = n\<rparr>]\<rparr>)
      else (Inl HostApiError, record_call (CreateComment r n b) h))"

definition set_body :: "repoOptions \<Rightarrow> int \<Rightarrow> string \<Rightarrow> comment \<Rightarrow> comment" where
  "set_body r i b c = (if comment_repo c = r \<and> comment_id c = i then c\<lparr>body := b\<rparr> else c)"

text \<open>
  \<^verbatim>\<open>updateComment(owner, repo, commentId, body)\<close>: the body of the comment with that
  identifier is replaced; an opaque failure when the repository has no such comment.
\<close>

definition updateComment :: "repoOptions \<Rightarrow> int \<Rightarrow> string \<Rightarrow> host \<Rightarrow> (error + unit) \<times> host" where
  "updateComment r i b h =
     (if list_ex (\<lambda>c. comment_repo c = r \<and> comment_id c = i) (comments h)
      then (Inr (),
            (record_call (UpdateComment r i b) h)\<lparr>comments := map (set_body r i b) (comments h)\<rparr>)
      else (Inl HostApiError, record_call (UpdateComment r i b) h))"

text \<open>
  Comment identifiers of the host are positive. The three requests keep it so: a new
  comment is numbered from 1 upwards, and no request changes an identifier.
\<close>

definition wf_host :: "host \<Rightarrow> bool" where
  "wf_host h = list_all (\<lambda>c. 0 < comment_id c) (comments h)"

text \<open>The requests that reached the host between two states, and the writes among them.\<close>

definition calls_since :: "host \<Rightarrow> host \<Rightarrow> call list" where
  "calls_since h h' = drop (length (calls h)) (calls h')"

fun is_write :: "call \<Rightarrow> bool" where
  "is_write (ListComments r n) = False"
| "is_write (CreateComment r n b) = True"
| "is_write (UpdateComment r i b) = True"

definition writes_since :: "host \<Rightarrow> host \<Rightarrow> call list" where
  "writes_since h h' = filter is_write (calls_since h h')"

section \<open>Comment locator and publisher\<close>

record commentOptions =
  message :: string

record payloadOptions =
  pl_commentOptions :: commentOptions
  pl_repoOptions :: repoOptions
  pl_resourceOptions :: resourceOptions

definition bot_login :: string where
  "bot_login = ''github-actions[bot]''"

definition is_bot :: "comment \<Rightarrow> bool" where
  "is_bot c = (user_login c = bot_login)"

text \<open>
  \<^verbatim>\<open>getCommentId\<close> (lines 20 to 38). A failure of the listing request propagates; no
  prior comment is the value \<open>None\<close>.
\<close>

definition getCommentId :: "payloadOptions \<Rightarrow> host \<Rightarrow> (error + int option) \<times> host" where
  "getCommentId options h =
     (case listComments (pl_repoOptions options) (requestId (pl_resourceOptions options)) h of
        (Inl e, h') \<Rightarrow> (Inl e, h')
      | (Inr cs, h') \<Rightarrow>
          (let res = filter (\<lambda>c. user_login c = ''github-actions[bot]'') cs
           in if length res > 0 then (Inr (Some (comment_id (res ! 0))), h')
              else (Inr None, h')))"

text \<open>
  The awaited conditional of \<^verbatim>\<open>replaceComment\<close> (lines 49 to 51). The condition is the
  truthiness of \<^verbatim>\<open>commentId\<close>: absent and \<open>0\<close> both select the create call.
\<close>

definition writeComment :: "payloadOptions \<Rightarrow> int option \<Rightarrow> host \<Rightarrow> (error + unit) \<times> host" where
  "writeComment options commentId h =
     (case commentId of
        None \<Rightarrow>
          createComment (pl_repoOptions options) (requestId (pl_resourceOptions options))
            (message (pl_commentOptions options)) h
      | Some i \<Rightarrow>
          if truthy_number i
          then updateComment (pl_repoOptions options) i (message (pl_commentOptions options)) h
          else createComment (pl_repoOptions options) (requestId (pl_resourceOptions options))
                 (message (pl_commentOptions options)) h)"

definition replaceComment :: "payloadOptions \<Rightarrow> host \<Rightarrow> (error + unit) \<times> host" where
  "replaceComment options h =
     (case getCommentId options h of
        (Inl e, h') \<Rightarrow> (Inl e, h')
      | (Inr commentId, h') \<Rightarrow> writeComment options commentId h')"

section \<open>One pipeline\<close>

text \<open>\<^verbatim>\<open>Array.prototype.join\<close> on strings.\<close>

fun join :: "string list \<Rightarrow> string \<Rightarrow> string" where
  "join [] sep = []"
| "join [x] sep = x"
| "join (x # y # ys) sep = x @ sep @ join (y # ys) sep"

definition newline :: char where
  "newline = CHR 0x0A"

text \<open>The body built by \<^verbatim>\<open>processComment\<close> (lines 58 to 61).\<close>

definition commentMessage :: "env \<Rightarrow> configOptions \<Rightarrow> string" where
  "commentMessage env options =
     (let commentText = ''![Styled Proverbs]('' @ request_url env @ ''?theme='' @
                        theme (styleOptions options) @ ''&layout='' @
                        layout (styleOptions options) @ '')'';
          footer = ''Triggered by commit: '' @ sha (github_context env)
      in join [commentText, footer] [newline, newline])"

text \<open>The argument that \<^verbatim>\<open>processComment\<close> hands to \<^verbatim>\<open>replaceComment\<close> (lines 62 to 64).\<close>

definition commentPayload :: "env \<Rightarrow> configOptions \<Rightarrow> payloadOptions" where
  "commentPayload env options =
     \<lparr>pl_commentOptions = \<lparr>message = commentMessage env options\<rparr>,
      pl_repoOptions = repoOptions options,
      pl_resourceOptions = resourceOptions options\<rparr>"

text \<open>
  \<^verbatim>\<open>processComment\<close> (lines 54 to 69). The handler reports the failure on the runner's
  console, which is not part of the state, and throws the same error again.
\<close>

definition processComment :: "env \<Rightarrow> configOptions \<Rightarrow> host \<Rightarrow> (error + unit) \<times> host" where
  "processComment env options h =
     (case replaceComment (commentPayload env options) h of
        (Inl e, h') \<Rightarrow> (Inl e, h')
      | (Inr u, h') \<Rightarrow> (Inr u, h'))"

text \<open>\<^verbatim>\<open>getOperationStatus\<close> (lines 94 to 98): resolve, then process.\<close>

definition getOperationStatus :: "env \<Rightarrow> partialConfig \<Rightarrow> host \<Rightarrow> (error + unit) \<times> host" where
  "getOperationStatus env option h =
     (case buildConfigOptions env option of
        Inl e \<Rightarrow> (Inl e, h)
      | Inr options \<Rightarrow> processComment env options h)"

section \<open>Batch orchestration\<close>

text \<open>
  \<^verbatim>\<open>executeOperation\<close> calls \<^verbatim>\<open>getOperationStatus\<close> for every entry without awaiting
  it, and then awaits all the promises. Each call runs synchronously up to its first
  request: an entry whose resolution throws is a rejected promise, every other entry has
  its listing request in flight. From there a pipeline moves when the host serves its
  request: from the listing to the write, from the write to its end.
\<close>

datatype task =
    Listing payloadOptions
  | Writing payloadOptions "int option"
  | Settled "error + unit"

definition launch :: "env \<Rightarrow> partialConfig \<Rightarrow> task" where
  "launch env option =
     (case buildConfigOptions env option of
        Inl e \<Rightarrow> Settled (Inl e)
      | Inr options \<Rightarrow> Listing (commentPayload env options))"

fun advance :: "task \<Rightarrow> host \<Rightarrow> task \<times> host" where
  "advance (Listing options) h =
     (case getCommentId options h of
        (Inl e, h') \<Rightarrow> (Settled (Inl e), h')
      | (Inr commentId, h') \<Rightarrow> (Writing options commentId, h'))"
| "advance (Writing options commentId) h =
     (case writeComment options commentId h of (r, h') \<Rightarrow> (Settled r, h'))"
| "advance (Settled r) h = (Settled r, h)"

text \<open>
  \<^verbatim>\<open>Promise.all\<close> rejects with the first rejection it sees: a promise that is already
  rejected when the loop ends comes first, in batch order; later ones in the order in
  which the pipelines fail.
\<close>

fun first_rejection :: "task list \<Rightarrow> error option" where
  "first_rejection [] = None"
| "first_rejection (Settled (Inl e) # ts) = Some e"
| "first_rejection (t # ts) = first_rejection ts"

fun rejection_of :: "task \<Rightarrow> error option" where
  "rejection_of (Settled (Inl e)) = Some e"
| "rejection_of t = None"

definition note_rejection :: "error option \<Rightarrow> task \<Rightarrow> error option" where
  "note_rejection seen t = (case seen of Some e \<Rightarrow> Some e | None \<Rightarrow> rejection_of t)"

text \<open>
  The pool: the pipelines of the batch, the host, and the rejection that
  \<^verbatim>\<open>Promise.all\<close> has seen. A step serves the request of pipeline \<open>i\<close>; it does nothing
  when that pipeline has ended or when there is no such pipeline.
\<close>

type_synonym pool = "task list \<times> host \<times> error option"

fun step :: "nat \<Rightarrow> pool \<Rightarrow> pool" where
  "step i (ts, h, seen) =
     (if i < length ts
      then (case ts ! i of
              Settled r \<Rightarrow> (ts, h, seen)
            | t \<Rightarrow>
                (case advance t h of
                   (t', h') \<Rightarrow> (ts[i := t'], h', note_rejection seen t')))
      else (ts, h, seen))"

text \<open>Serving every pipeline twice, in batch order, ends all of them.\<close>

definition drain :: "nat \<Rightarrow> nat list" where
  "drain n = concat (map (\<lambda>i. [i, i]) [0..<n])"

text \<open>
  \<^verbatim>\<open>executeOperation\<close> (lines 100 to 108). The order in which the host serves the
  requests of different pipelines is not fixed by the program: \<open>sched\<close> is that order, and
  whatever it leaves unserved is served afterwards. The result is the one of
  \<^verbatim>\<open>Promise.all\<close>; the host is the one left when every pipeline has ended.
\<close>

definition executeOperation ::
    "env \<Rightarrow> partialConfig list \<Rightarrow> nat list \<Rightarrow> host \<Rightarrow> (error + unit) \<times> host" where
  "executeOperation env options sched h =
     (let ts = map (launch env) options
      in case fold step (sched @ drain (length ts)) (ts, h, first_rejection ts) of
           (ts', h', seen) \<Rightarrow>
             (case seen of Some e \<Rightarrow> (Inl e, h') | None \<Rightarrow> (Inr (), h')))"

section \<open>Batch expander\<close>

definition ends_with :: "string \<Rightarrow> string \<Rightarrow> bool" where
  "ends_with ext path =
     (length ext \<le> length path \<and> drop (length path - length ext) path = ext)"

text \<open>
  Modelled from the spec: \<^verbatim>\<open>isValidFile\<close> of \<^verbatim>\<open>utils/validators\<close> is not among the
  sources. The spec says that the source names an existing file with a recognized
  structured-data extension.
\<close>

definition isValidFile :: "env \<Rightarrow> string \<Rightarrow> string \<Rightarrow> bool" where
  "isValidFile env path ext = (files env path \<noteq> None \<and> ends_with ext path)"

text \<open>
  Modelled from the spec: \<^verbatim>\<open>getConfigOptions\<close> of \<^verbatim>\<open>utils/files\<close> is not among the
  sources. The spec says that the file is parsed as a sequence of partial configuration
  objects, and that a file which fails to parse as that structure is a \<open>ConfigError\<close>.
\<close>

definition getConfigOptions :: "env \<Rightarrow> string \<Rightarrow> error + partialConfig list" where
  "getConfigOptions env path =
     (case files env path of None \<Rightarrow> Inl ConfigError | Some r \<Rightarrow> r)"

text \<open>The batch of \<^verbatim>\<open>getOperationResult\<close> (line 111).\<close>

definition operationParams :: "env \<Rightarrow> string \<Rightarrow> error + partialConfig list" where
  "operationParams env sourceData =
     (if isValidFile env sourceData ''.json'' then getConfigOptions env sourceData
      else Inr [emptyPartial])"

text \<open>\<^verbatim>\<open>getOperationResult\<close> (lines 110 to 114).\<close>

definition getOperationResult ::
    "env \<Rightarrow> string \<Rightarrow> nat list \<Rightarrow> host \<Rightarrow> (error + unit) \<times> host" where
  "getOperationResult env sourceData sched h =
     (case operationParams env sourceData of
        Inl e \<Rightarrow> (Inl e, h)
      | Inr params \<Rightarrow> executeOperation env params sched h)"

section \<open>Notions used in the statements\<close>

text \<open>The bot comments of a thread, and the body that a request carries.\<close>

definition botComments :: "repoOptions \<Rightarrow> int \<Rightarrow> host \<Rightarrow> comment list" where
  "botComments r n h = filter is_bot (thread r n h)"

fun call_body :: "call \<Rightarrow> string" where
  "call_body (ListComments r n) = []"
| "call_body (CreateComment r n b) = b"
| "call_body (UpdateComment r i b) = b"

text \<open>The write that the publisher owes for what the locator has returned.\<close>

definition publishCall :: "payloadOptions \<Rightarrow> int option \<Rightarrow> call" where
  "publishCall options located =
     (case located of
        Some i \<Rightarrow> UpdateComment (pl_repoOptions options) i (message (pl_commentOptions options))
      | None \<Rightarrow>
          CreateComment (pl_repoOptions options) (requestId (pl_resourceOptions options))
            (message (pl_commentOptions options)))"

text \<open>A partial configuration without one of its fields.\<close>

definition unset_theme :: "partialConfig \<Rightarrow> partialConfig" where
  "unset_theme options =
     options\<lparr>p_styleOptions := map_option (\<lambda>s. s\<lparr>p_theme := None\<rparr>) (p_styleOptions options)\<rparr>"

definition unset_layout :: "partialConfig \<Rightarrow> partialConfig" where
  "unset_layout options =
     options\<lparr>p_styleOptions := map_option (\<lambda>s. s\<lparr>p_layout := None\<rparr>) (p_styleOptions options)\<rparr>"

definition unset_requestId :: "partialConfig \<Rightarrow> partialConfig" where
  "unset_requestId options =
     options\<lparr>p_resourceOptions :=
       map_option (\<lambda>s. s\<lparr>p_requestId := None\<rparr>) (p_resourceOptions options)\<rparr>"

text \<open>
  The host that a pipeline leaves when it is served to its end (two requests at most),
  and the number of requests that a pipeline may still issue.
\<close>

definition settle :: "task \<Rightarrow> host \<Rightarrow> host" where
  "settle t h = snd (advance (fst (advance t h)) (snd (advance t h)))"

fun pending :: "task \<Rightarrow> nat" where
  "pending (Listing pl) = 2"
| "pending (Writing pl located) = 1"
| "pending (Settled r) = 0"

section \<open>The scenarios of the specification\<close>

text \<open>
  Repository \<open>o/r\<close>, commit \<open>abc123\<close>, no pull request in the payload, default theme
  \<open>light\<close> and layout \<open>classic\<close>, and a batch file with one entry for number 9.
\<close>

definition scenario_repo :: repoOptions where
  "scenario_repo = \<lparr>owner = ''o'', repo = ''r''\<rparr>"

definition batch_entry :: "string option \<Rightarrow> int option \<Rightarrow> partialConfig" where
  "batch_entry t n =
     \<lparr>p_styleOptions = Some \<lparr>p_theme = t, p_layout = None\<rparr>,
      p_resourceOptions = Some \<lparr>p_requestId = map_option jsint n\<rparr>,
      p_repoOptions = None\<rparr>"

definition scenario_env :: env where
  "scenario_env =
     \<lparr>github_context =
        \<lparr>sha = ''abc123'', ctx_repo = scenario_repo, pull_request_number = None\<rparr>,
      inputs = Map.empty,
      defaults = [''theme'' \<mapsto> ''light'', ''layout'' \<mapsto> ''classic''],
      request_url = ''<endpoint>'',
      files = [''batch.json'' \<mapsto> Inr [batch_entry None (Some 9)]]\<rparr>"

definition scenario_options :: "int \<Rightarrow> configOptions" where
  "scenario_options n =
     \<lparr>styleOptions = \<lparr>theme = ''light'', layout = ''classic''\<rparr>,
      resourceOptions = \<lparr>requestId = n\<rparr>,
      repoOptions = scenario_repo\<rparr>"

definition later_env :: env where
  "later_env = scenario_env\<lparr>github_context := (github_context scenario_env)\<lparr>sha := ''def456''\<rparr>\<rparr>"

text \<open>
  The scenario with single-run inputs for the theme and the identifier, and the scenario
  run for pull request 12.
\<close>

definition input_env :: env where
  "input_env = scenario_env\<lparr>inputs := [''theme'' \<mapsto> ''dark'', ''requestId'' \<mapsto> ''7'']\<rparr>"

definition pull_request_env :: env where
  "pull_request_env =
     scenario_env\<lparr>github_context :=
       \<lparr>sha = ''abc123'', ctx_repo = scenario_repo, pull_request_number = Some (jsint 12)\<rparr>\<rparr>"

definition readme_entry :: partialConfig where
  "readme_entry =
     \<lparr>p_styleOptions = Some \<lparr>p_theme = Some ''nightOwl'', p_layout = Some ''churchill''\<rparr>,
      p_resourceOptions = Some \<lparr>p_requestId = Some (jsint 10)\<rparr>,
      p_repoOptions = None\<rparr>"

definition falsy_entry :: partialConfig where
  "falsy_entry =
     \<lparr>p_styleOptions = Some \<lparr>p_theme = Some [], p_layout = Some []\<rparr>,
      p_resourceOptions = Some \<lparr>p_requestId = Some (jsint 0)\<rparr>,
      p_repoOptions = None\<rparr>"

definition scenario_host :: "comment list \<Rightarrow> host" where
  "scenario_host cs =
     \<lparr>issues = [(scenario_repo, 9)], comments = cs, actor = bot_login, per_page = 30,
      calls = []\<rparr>"

definition scenario_comment :: "int \<Rightarrow> string \<Rightarrow> comment" where
  "scenario_comment i who =
     \<lparr>comment_id = i, user_login = who, body = ''hello'',
      comment_repo = scenario_repo, issue_number = 9\<rparr>"

definition scenario_thread :: "comment list" where
  "scenario_thread =
     [scenario_comment 1 ''alice'', scenario_comment 2 ''github-actions[bot]'',
      scenario_comment 3 ''github-actions[bot]'']"

text \<open>Thirty comments by alice: a full first page.\<close>

definition long_thread :: "comment list" where
  "long_thread = map (\<lambda>i. scenario_comment i ''alice'') [1..30]"

definition scenario_message :: string where
  "scenario_message =
     ''![Styled Proverbs](<endpoint>?theme=light&layout=classic)'' @ [newline, newline] @
     ''Triggered by commit: abc123''"

section \<open>Decimal rendering and coercion agree\<close>

declare digits.simps [simp del]

lemma digit_char_is_digit: "d < 10 \<Longrightarrow> is_digit (digit_char d)"
  by (simp add: is_digit_def digit_char_def)

lemma digit_val_digit_char: "d < 10 \<Longrightarrow> digit_val (digit_char d) = d"
  by (simp add: digit_val_def digit_char_def)

lemma digit_char_not_minus: "d < 10 \<Longrightarrow> digit_char d \<noteq> CHR ''-''"
proof
  assume d: "d < 10" and eq: "digit_char d = CHR ''-''"
  from eq have "(of_char (digit_char d) :: nat) = of_char (CHR ''-'')" by simp
  with d show False by (simp add: digit_char_def)
qed

lemma digits_nonempty: "digits n \<noteq> []"
  by (subst digits.simps) simp

lemma digits_all_digit: "list_all is_digit (digits n)"
proof (induction n rule: digits.induct)
  case (1 n)
  show ?case
  proof (cases "n < 10")
    case True
    then show ?thesis by (subst digits.simps) (simp add: digit_char_is_digit)
  next
    case False
    with 1 show ?thesis by (subst digits.simps) (simp add: digit_char_is_digit)
  qed
qed

lemma parse_digits_snoc: "parse_digits (s @ [c]) = 10 * parse_digits s + digit_val c"
  by (simp add: parse_digits_def)

lemma parse_digits_digits: "parse_digits (digits n) = n"
proof (induction n rule: digits.induct)
  case (1 n)
  show ?case
  proof (cases "n < 10")
    case True
    then show ?thesis
      by (subst digits.simps) (simp add: parse_digits_def digit_val_digit_char)
  next
    case False
    with 1 have "parse_digits (digits (n div 10)) = n div 10" by simp
    with False show ?thesis
      by (subst digits.simps) (simp add: parse_digits_snoc digit_val_digit_char)
  qed
qed

lemma digits_hd_not_minus: "\<exists>c r. digits n = c # r \<and> c \<noteq> CHR ''-''"
proof -
  obtain c r where cr: "digits n = c # r"
    using digits_nonempty [of n] by (cases "digits n") auto
  have "list_all is_digit (c # r)" using digits_all_digit [of n] cr by simp
  then have "is_digit c" by simp
  then have "c \<noteq> CHR ''-''" by (auto simp: is_digit_def)
  with cr show ?thesis by blast
qed

lemma minus_no_digit: "\<not> is_digit CHR ''-''"
  by (simp add: is_digit_def)

lemma numeral_string_digits: "numeral_string (digits n)"
  by (simp add: numeral_string_def digits_nonempty digits_all_digit)

lemma toInt_show_int:
  assumes "0 < n" and "n \<le> 9007199254740991"
  shows "toInt (show_int n) = Inr n"
  using assms
  by (simp add: show_int_def toInt_def numeral_string_digits parse_digits_digits
      max_safe_integer_def)

lemma toInt_show_int_rejected:
  assumes "n \<le> 0"
  shows "toInt (show_int n) = Inl ValueError"
proof (cases "n < 0")
  case True
  then show ?thesis
    by (simp add: show_int_def toInt_def numeral_string_def minus_no_digit)
next
  case False
  with assms have "n = 0" by simp
  then show ?thesis
    by (simp add: show_int_def toInt_def parse_digits_digits)
qed

lemma toInt_no_numeral: "\<not> numeral_string s \<Longrightarrow> toInt s = Inl ValueError"
  by (simp add: toInt_def)

lemma toInt_positive: "toInt s = Inr n \<Longrightarrow> 0 < n \<and> n \<le> 9007199254740991"
  by (auto simp: toInt_def max_safe_integer_def split: if_splits)

lemma int_of_safe: "int_of n \<le> 9007199254740991"
  using int_of [of n] by simp

lemma int_of_jsint: "\<bar>k\<bar> \<le> 9007199254740991 \<Longrightarrow> int_of (jsint k) = k"
  by (simp add: jsint_inverse)

section \<open>The resolver\<close>

lemmas scenario_defs =
  scenario_env_def scenario_repo_def batch_entry_def scenario_options_def emptyPartial_def

lemmas resolver_defs =
  resolveTheme_def resolveLayout_def resolveRequestId_def getProperty_def
  js_or_def str_or_def chain_def num_opt_def

lemma buildConfigOptions_style:
  assumes "buildConfigOptions env options = Inr cfg"
  shows "theme (styleOptions cfg) = resolveTheme env options"
    and "layout (styleOptions cfg) = resolveLayout env options"
    and "repoOptions cfg = ctx_repo (github_context env)"
  using assms
  by (auto simp: buildConfigOptions_def Let_def split: if_splits sum.splits)

lemma buildConfigOptions_cong:
  assumes "resolveTheme env a = resolveTheme env b"
    and "resolveLayout env a = resolveLayout env b"
    and "resolveRequestId env a = resolveRequestId env b"
  shows "buildConfigOptions env a = buildConfigOptions env b"
  using assms by (simp add: buildConfigOptions_def)

lemma buildConfigOptions_undefined:
  "resolveRequestId env options = Undefined \<Longrightarrow> buildConfigOptions env options = Inl ValueError"
  by (simp add: buildConfigOptions_def isNullOrUndefined_def)

lemma buildConfigOptions_Num:
  "resolveRequestId env options = Num n \<Longrightarrow> 0 < int_of n \<Longrightarrow>
   buildConfigOptions env options =
     Inr \<lparr>styleOptions = \<lparr>theme = resolveTheme env options, layout = resolveLayout env options\<rparr>,
          resourceOptions = \<lparr>requestId = int_of n\<rparr>,
          repoOptions = ctx_repo (github_context env)\<rparr>"
  by (simp add: buildConfigOptions_def isNullOrUndefined_def toInt_show_int int_of_safe)

lemma buildConfigOptions_Num_rejected:
  "resolveRequestId env options = Num n \<Longrightarrow> int_of n \<le> 0 \<Longrightarrow>
   buildConfigOptions env options = Inl ValueError"
  by (simp add: buildConfigOptions_def isNullOrUndefined_def toInt_show_int_rejected)

lemma buildConfigOptions_Str:
  "resolveRequestId env options = Str s \<Longrightarrow>
   buildConfigOptions env options =
     (case toInt s of Inl e \<Rightarrow> Inl e
      | Inr n \<Rightarrow> Inr \<lparr>styleOptions = \<lparr>theme = resolveTheme env options, layout = resolveLayout env options\<rparr>,
          resourceOptions = \<lparr>requestId = n\<rparr>,
          repoOptions = ctx_repo (github_context env)\<rparr>)"
  by (simp add: buildConfigOptions_def isNullOrUndefined_def)

lemma toInt_error: "toInt s = Inl e \<Longrightarrow> e = ValueError"
  by (auto simp: toInt_def split: if_splits)

lemma buildConfigOptions_error: "buildConfigOptions env options = Inl e \<Longrightarrow> e = ValueError"
  by (auto simp: buildConfigOptions_def Let_def split: if_splits sum.splits dest: toInt_error)

lemma getProperty_sha:
  "getProperty (env\<lparr>github_context := c\<rparr>) name = getProperty env name"
  by (simp add: getProperty_def split: option.splits)

lemma buildConfigOptions_sha:
  "buildConfigOptions (env\<lparr>github_context := (github_context env)\<lparr>sha := s\<rparr>\<rparr>) option =
   buildConfigOptions env option"
proof -
  let ?env' = "env\<lparr>github_context := (github_context env)\<lparr>sha := s\<rparr>\<rparr>"
  have "resolveTheme ?env' option = resolveTheme env option"
    and "resolveLayout ?env' option = resolveLayout env option"
    and "resolveRequestId ?env' option = resolveRequestId env option"
    and "ctx_repo (github_context ?env') = ctx_repo (github_context env)"
    by (simp_all add: resolveTheme_def resolveLayout_def resolveRequestId_def getProperty_sha)
  then show ?thesis by (simp add: buildConfigOptions_def Let_def split: sum.splits)
qed

lemma scenario_candidate:
  "resolveRequestId scenario_env (batch_entry t (Some n)) =
     (if int_of (jsint n) = 0 then Undefined else Num (jsint n))"
  by (simp add: scenario_defs resolver_defs truthy_number_def)

lemma scenario_resolves:
  assumes "0 < n" and "n \<le> 9007199254740991"
  shows "buildConfigOptions scenario_env (batch_entry None (Some n)) = Inr (scenario_options n)"
proof -
  have i: "int_of (jsint n) = n" using assms by (simp add: int_of_jsint)
  with assms have c: "resolveRequestId scenario_env (batch_entry None (Some n)) = Num (jsint n)"
    by (simp add: scenario_candidate)
  from assms i show ?thesis
    by (simp add: buildConfigOptions_Num [OF c]) (simp add: scenario_defs resolver_defs)
qed

lemma scenario_unresolved:
  "buildConfigOptions scenario_env emptyPartial = Inl ValueError"
  by (simp add: buildConfigOptions_undefined scenario_defs resolver_defs)

section \<open>The host\<close>

text \<open>The three requests record themselves, and keep the identifiers of the host positive.\<close>

lemma find_filter_hd: "find P xs = (case filter P xs of [] \<Rightarrow> None | x # _ \<Rightarrow> Some x)"
  by (induction xs) auto

lemma filter_map_invariant:
  "(\<And>x. P (f x) = P x) \<Longrightarrow> filter P (map f xs) = map f (filter P xs)"
  by (induction xs) auto

lemma record_call_fields:
  "comments (record_call c h) = comments h"
  "issues (record_call c h) = issues h"
  "actor (record_call c h) = actor h"
  "per_page (record_call c h) = per_page h"
  "calls (record_call c h) = calls h @ [c]"
  by (simp_all add: record_call_def)

lemma thread_record_call: "thread r n (record_call c h) = thread r n h"
  by (simp add: thread_def record_call_fields)

lemma first_page_complete:
  "length (thread r n h) \<le> per_page h \<Longrightarrow> first_page r n h = thread r n h"
  by (simp add: first_page_def)

lemma first_page_subset: "set (first_page r n h) \<subseteq> set (thread r n h)"
  by (simp add: first_page_def set_take_subset)

lemma calls_listComments: "calls (snd (listComments r n h)) = calls h @ [ListComments r n]"
  by (simp add: listComments_def record_call_def)

lemma calls_createComment:
  "calls (snd (createComment r n b h)) = calls h @ [CreateComment r n b]"
  by (simp add: createComment_def record_call_def)

lemma calls_updateComment:
  "calls (snd (updateComment r i b h)) = calls h @ [UpdateComment r i b]"
  by (simp add: updateComment_def record_call_def)

lemma calls_since_append: "calls h' = calls h @ xs \<Longrightarrow> calls_since h h' = xs"
  by (simp add: calls_since_def)

lemma thread_subset: "set (thread r n h) \<subseteq> set (comments h)"
  by (auto simp: thread_def)

lemma fold_max_ge: "(a::int) \<le> fold max xs a"
proof (induction xs arbitrary: a)
  case Nil
  show ?case by simp
next
  case (Cons x xs)
  have "a \<le> max x a" by simp
  also have "\<dots> \<le> fold max xs (max x a)" by (rule Cons.IH)
  finally show ?case by simp
qed

lemma fresh_id_positive: "0 < fresh_id h"
  using fold_max_ge [of 0 "map comment_id (comments h)"] by (simp add: fresh_id_def)

lemma set_body_fields:
  "comment_repo (set_body r i b c) = comment_repo c"
  "issue_number (set_body r i b c) = issue_number c"
  "user_login (set_body r i b c) = user_login c"
  "comment_id (set_body r i b c) = comment_id c"
  by (simp_all add: set_body_def)

lemma wf_host_listComments: "wf_host h \<Longrightarrow> wf_host (snd (listComments r n h))"
  by (simp add: listComments_def wf_host_def record_call_fields)

lemma wf_host_createComment: "wf_host h \<Longrightarrow> wf_host (snd (createComment r n b h))"
  using fresh_id_positive [of h]
  by (simp add: createComment_def wf_host_def record_call_fields)

lemma wf_host_updateComment: "wf_host h \<Longrightarrow> wf_host (snd (updateComment r i b h))"
  by (simp add: updateComment_def wf_host_def record_call_fields list_all_iff set_body_fields)

lemma scenario_listing:
  "listComments scenario_repo 9 (scenario_host cs) =
     (Inr (take 30 (filter (\<lambda>c. comment_repo c = scenario_repo \<and> issue_number c = 9) cs)),
      record_call (ListComments scenario_repo 9) (scenario_host cs))"
  by (simp add: listComments_def first_page_def scenario_host_def thread_def)

lemma scenario_host_facts:
  "wf_host (scenario_host [])"
  "actor (scenario_host []) = bot_login"
  "(scenario_repo, 9) \<in> set (issues (scenario_host []))"
  "botComments scenario_repo 9 (scenario_host []) = []"
  "length (thread scenario_repo 9 (scenario_host [])) < per_page (scenario_host [])"
  by (simp_all add: wf_host_def scenario_host_def botComments_def thread_def)

section \<open>Locator and publisher\<close>

lemma getCommentId_listed:
  assumes "listComments (pl_repoOptions options) (requestId (pl_resourceOptions options)) h
             = (Inr cs, h')"
  shows "getCommentId options h = (Inr (map_option comment_id (find is_bot cs)), h')"
proof -
  have eq: "(\<lambda>c. user_login c = ''github-actions[bot]'') = is_bot"
    by (simp add: is_bot_def bot_login_def fun_eq_iff)
  show ?thesis
    using assms
    by (cases "filter is_bot cs") (simp_all add: getCommentId_def eq find_filter_hd)
qed

lemma getCommentId_failed:
  assumes "listComments (pl_repoOptions options) (requestId (pl_resourceOptions options)) h
             = (Inl e, h')"
  shows "getCommentId options h = (Inl e, h')"
  using assms by (simp add: getCommentId_def)

lemma getCommentId_cases:
  "(pl_repoOptions options, requestId (pl_resourceOptions options)) \<in> set (issues h) \<Longrightarrow>
     \<exists>located h'. getCommentId options h = (Inr located, h')"
  "(pl_repoOptions options, requestId (pl_resourceOptions options)) \<notin> set (issues h) \<Longrightarrow>
     \<exists>h'. getCommentId options h = (Inl HostApiError, h')"
  by (auto simp: getCommentId_def listComments_def Let_def)

lemma getCommentId_first_page:
  assumes "(pl_repoOptions pl, requestId (pl_resourceOptions pl)) \<in> set (issues h)"
  shows "getCommentId pl h =
     (Inr (case filter is_bot
                 (first_page (pl_repoOptions pl) (requestId (pl_resourceOptions pl)) h) of
             [] \<Rightarrow> None | c # _ \<Rightarrow> Some (comment_id c)),
      record_call (ListComments (pl_repoOptions pl) (requestId (pl_resourceOptions pl))) h)"
proof -
  have "listComments (pl_repoOptions pl) (requestId (pl_resourceOptions pl)) h =
      (Inr (first_page (pl_repoOptions pl) (requestId (pl_resourceOptions pl)) h),
       record_call (ListComments (pl_repoOptions pl) (requestId (pl_resourceOptions pl))) h)"
    using assms by (simp add: listComments_def)
  from getCommentId_listed [OF this] show ?thesis
    by (simp add: find_filter_hd split: list.splits)
qed

lemma getCommentId_existing:
  assumes "(pl_repoOptions pl, requestId (pl_resourceOptions pl)) \<in> set (issues h)"
    and "length (thread (pl_repoOptions pl) (requestId (pl_resourceOptions pl)) h) \<le> per_page h"
  shows "getCommentId pl h =
     (Inr (case botComments (pl_repoOptions pl) (requestId (pl_resourceOptions pl)) h of
             [] \<Rightarrow> None | c # _ \<Rightarrow> Some (comment_id c)),
      record_call (ListComments (pl_repoOptions pl) (requestId (pl_resourceOptions pl))) h)"
  using getCommentId_first_page [OF assms(1)] first_page_complete [OF assms(2)]
  by (simp add: botComments_def)

lemma getCommentId_no_bot:
  assumes "(pl_repoOptions pl, requestId (pl_resourceOptions pl)) \<in> set (issues h)"
    and "botComments (pl_repoOptions pl) (requestId (pl_resourceOptions pl)) h = []"
  shows "getCommentId pl h =
     (Inr None,
      record_call (ListComments (pl_repoOptions pl) (requestId (pl_resourceOptions pl))) h)"
proof -
  have "filter is_bot (first_page (pl_repoOptions pl) (requestId (pl_resourceOptions pl)) h) = []"
    using assms(2) first_page_subset [of "pl_repoOptions pl" "requestId (pl_resourceOptions pl)" h]
    by (auto simp: botComments_def filter_empty_conv)
  with getCommentId_first_page [OF assms(1)] show ?thesis by simp
qed

lemma calls_getCommentId:
  "calls (snd (getCommentId options h)) =
   calls h @ [ListComments (pl_repoOptions options) (requestId (pl_resourceOptions options))]"
proof (cases "listComments (pl_repoOptions options) (requestId (pl_resourceOptions options)) h")
  case (Pair res h')
  then have c: "calls h' =
      calls h @ [ListComments (pl_repoOptions options) (requestId (pl_resourceOptions options))]"
    using calls_listComments
      [of "pl_repoOptions options" "requestId (pl_resourceOptions options)" h] by simp
  show ?thesis
  proof (cases res)
    case (Inl e)
    with Pair c show ?thesis by (simp add: getCommentId_failed)
  next
    case (Inr cs)
    with Pair c show ?thesis by (simp add: getCommentId_listed)
  qed
qed

lemma comments_getCommentId:
  "comments (snd (getCommentId options h)) = comments h"
  "issues (snd (getCommentId options h)) = issues h"
  "actor (snd (getCommentId options h)) = actor h"
  "per_page (snd (getCommentId options h)) = per_page h"
  by (auto simp: getCommentId_def listComments_def record_call_def Let_def)

lemma located_positive:
  assumes "wf_host h" and "getCommentId options h = (Inr (Some i), h')"
  shows "0 < i"
proof -
  let ?r = "pl_repoOptions options" and ?n = "requestId (pl_resourceOptions options)"
  from assms(2) have ok: "listComments ?r ?n h = (Inr (first_page ?r ?n h), h')"
    by (auto simp: getCommentId_def listComments_def Let_def split: if_splits)
  from getCommentId_listed [OF ok] assms(2)
  have "map_option comment_id (find is_bot (first_page ?r ?n h)) = Some i" by simp
  then obtain c where f: "find is_bot (first_page ?r ?n h) = Some c" and i: "i = comment_id c"
    by (cases "find is_bot (first_page ?r ?n h)") auto
  from f have "c \<in> set (first_page ?r ?n h)"
    by (auto simp: find_Some_iff)
  with first_page_subset thread_subset have "c \<in> set (comments h)" by blast
  with assms(1) i show ?thesis by (simp add: wf_host_def list_all_iff)
qed

lemma publishCall_write:
  "is_write (publishCall options located)"
  "call_body (publishCall options located) = message (pl_commentOptions options)"
  by (cases located; simp add: publishCall_def)+

lemma calls_writeComment:
  "located \<noteq> Some 0 \<Longrightarrow>
   calls (snd (writeComment options located h)) = calls h @ [publishCall options located]"
  by (cases located)
     (simp_all add: writeComment_def publishCall_def calls_createComment calls_updateComment
        truthy_number_def)

lemma calls_writeComment_zero:
  "calls (snd (writeComment options (Some 0) h)) = calls h @ [publishCall options None]"
  by (simp add: writeComment_def publishCall_def calls_createComment truthy_number_def)

lemma calls_writeComment_any:
  "\<exists>w. calls (snd (writeComment options located h)) = calls h @ [w] \<and> is_write w \<and>
       call_body w = message (pl_commentOptions options)"
proof (cases "located = Some 0")
  case True
  then show ?thesis
    using calls_writeComment_zero [of options h] publishCall_write [of options None] by auto
next
  case False
  then show ?thesis
    using calls_writeComment [of located options h] publishCall_write [of options located]
    by auto
qed

lemma write_bodies_replaceComment:
  "map call_body (writes_since h (snd (replaceComment options h))) =
     (if (pl_repoOptions options, requestId (pl_resourceOptions options)) \<in> set (issues h)
      then [message (pl_commentOptions options)] else [])"
proof (cases "(pl_repoOptions options, requestId (pl_resourceOptions options)) \<in> set (issues h)")
  case True
  then obtain located h' where g: "getCommentId options h = (Inr located, h')"
    using getCommentId_cases(1) by blast
  have l: "calls h' =
      calls h @ [ListComments (pl_repoOptions options) (requestId (pl_resourceOptions options))]"
    using calls_getCommentId [of options h] g by simp
  obtain w where w: "calls (snd (writeComment options located h')) = calls h' @ [w]"
      "is_write w" "call_body w = message (pl_commentOptions options)"
    using calls_writeComment_any by blast
  have "calls (snd (replaceComment options h)) =
      calls h @ [ListComments (pl_repoOptions options) (requestId (pl_resourceOptions options)), w]"
    using g w(1) l by (simp add: replaceComment_def)
  then have "calls_since h (snd (replaceComment options h)) =
      [ListComments (pl_repoOptions options) (requestId (pl_resourceOptions options)), w]"
    by (rule calls_since_append)
  with w True show ?thesis by (simp add: writes_since_def)
next
  case False
  then obtain h' where g: "getCommentId options h = (Inl HostApiError, h')"
    using getCommentId_cases(2) by blast
  have "calls (snd (replaceComment options h)) =
      calls h @ [ListComments (pl_repoOptions options) (requestId (pl_resourceOptions options))]"
    using calls_getCommentId [of options h] g by (simp add: replaceComment_def)
  then have "calls_since h (snd (replaceComment options h)) =
      [ListComments (pl_repoOptions options) (requestId (pl_resourceOptions options))]"
    by (rule calls_since_append)
  with False show ?thesis by (simp add: writes_since_def)
qed

lemma replaceComment_creates:
  assumes issue: "(pl_repoOptions pl, requestId (pl_resourceOptions pl)) \<in> set (issues h)"
    and none: "botComments (pl_repoOptions pl) (requestId (pl_resourceOptions pl)) h = []"
    and bot: "actor h = bot_login"
    and wf: "wf_host h"
  shows "\<exists>c h'. replaceComment pl h = (Inr (), h') \<and>
           botComments (pl_repoOptions pl) (requestId (pl_resourceOptions pl)) h' = [c] \<and>
           body c = message (pl_commentOptions pl) \<and>
           writes_since h h' =
             [CreateComment (pl_repoOptions pl) (requestId (pl_resourceOptions pl))
                (message (pl_commentOptions pl))] \<and>
           thread (pl_repoOptions pl) (requestId (pl_resourceOptions pl)) h' =
             thread (pl_repoOptions pl) (requestId (pl_resourceOptions pl)) h @ [c] \<and>
           wf_host h' \<and> actor h' = actor h \<and> issues h' = issues h \<and>
           per_page h' = per_page h"
proof -
  let ?r = "pl_repoOptions pl" and ?n = "requestId (pl_resourceOptions pl)"
    and ?m = "message (pl_commentOptions pl)"
  let ?h1 = "record_call (ListComments ?r ?n) h"
  let ?new = "\<lparr>comment_id = fresh_id ?h1, user_login = actor ?h1, body = ?m,
               comment_repo = ?r, issue_number = ?n\<rparr>"
  let ?h2 = "(record_call (CreateComment ?r ?n ?m) ?h1)\<lparr>comments := comments ?h1 @ [?new]\<rparr>"
  have g: "getCommentId pl h = (Inr None, ?h1)"
    by (rule getCommentId_no_bot [OF issue none])
  have w: "writeComment pl None ?h1 = (Inr (), ?h2)"
    using issue by (simp add: writeComment_def createComment_def record_call_fields)
  have r: "replaceComment pl h = (Inr (), ?h2)"
    by (simp add: replaceComment_def g w)
  have b: "botComments ?r ?n ?h2 = [?new]"
    using none bot
    by (simp add: botComments_def thread_def record_call_fields is_bot_def)
  have c: "calls ?h2 = calls h @ [ListComments ?r ?n, CreateComment ?r ?n ?m]"
    by (simp add: record_call_fields)
  have ws: "writes_since h ?h2 = [CreateComment ?r ?n ?m]"
    using calls_since_append [OF c] by (simp add: writes_since_def)
  have wf2: "wf_host ?h2"
    using wf fresh_id_positive [of ?h1] by (simp add: wf_host_def record_call_fields)
  have t: "thread ?r ?n ?h2 = thread ?r ?n h @ [?new]"
    by (simp add: thread_def record_call_fields)
  show ?thesis
    using r b ws wf2 t
    by (intro exI [of _ ?new] exI [of _ ?h2]) (simp add: record_call_fields)
qed

lemma replaceComment_updates:
  assumes issue: "(pl_repoOptions pl, requestId (pl_resourceOptions pl)) \<in> set (issues h)"
    and one: "botComments (pl_repoOptions pl) (requestId (pl_resourceOptions pl)) h = [c]"
    and wf: "wf_host h"
    and page:
      "length (thread (pl_repoOptions pl) (requestId (pl_resourceOptions pl)) h) \<le> per_page h"
  shows "\<exists>h'. replaceComment pl h = (Inr (), h') \<and>
           botComments (pl_repoOptions pl) (requestId (pl_resourceOptions pl)) h' =
             [c\<lparr>body := message (pl_commentOptions pl)\<rparr>] \<and>
           writes_since h h' =
             [UpdateComment (pl_repoOptions pl) (comment_id c) (message (pl_commentOptions pl))] \<and>
           length (thread (pl_repoOptions pl) (requestId (pl_resourceOptions pl)) h') =
             length (thread (pl_repoOptions pl) (requestId (pl_resourceOptions pl)) h) \<and>
           wf_host h' \<and> actor h' = actor h \<and> issues h' = issues h \<and>
           per_page h' = per_page h"
proof -
  let ?r = "pl_repoOptions pl" and ?n = "requestId (pl_resourceOptions pl)"
    and ?m = "message (pl_commentOptions pl)"
  let ?h1 = "record_call (ListComments ?r ?n) h"
  let ?sb = "set_body ?r (comment_id c) ?m"
  let ?h2 = "(record_call (UpdateComment ?r (comment_id c) ?m) ?h1)
               \<lparr>comments := map ?sb (comments ?h1)\<rparr>"
  have cin: "c \<in> set (botComments ?r ?n h)" using one by simp
  then have cc: "c \<in> set (comments h)" and cr: "comment_repo c = ?r"
    by (auto simp: botComments_def thread_def)
  from cc wf have pos: "0 < comment_id c" by (simp add: wf_host_def list_all_iff)
  have g: "getCommentId pl h = (Inr (Some (comment_id c)), ?h1)"
    using getCommentId_existing [OF issue page] one by simp
  have ex: "list_ex (\<lambda>x. comment_repo x = ?r \<and> comment_id x = comment_id c) (comments ?h1)"
    using cc cr by (auto simp: list_ex_iff record_call_fields)
  have w: "writeComment pl (Some (comment_id c)) ?h1 = (Inr (), ?h2)"
    using pos ex by (simp add: writeComment_def updateComment_def truthy_number_def)
  have r: "replaceComment pl h = (Inr (), ?h2)"
    by (simp add: replaceComment_def g w)
  have "botComments ?r ?n ?h2 = map ?sb (botComments ?r ?n h)"
    by (simp add: botComments_def thread_def record_call_fields filter_map_invariant
        set_body_fields is_bot_def)
  also have "\<dots> = [c\<lparr>body := ?m\<rparr>]"
    using one cr by (simp add: set_body_def)
  finally have b: "botComments ?r ?n ?h2 = [c\<lparr>body := ?m\<rparr>]" .
  have cs: "calls ?h2 = calls h @ [ListComments ?r ?n, UpdateComment ?r (comment_id c) ?m]"
    by (simp add: record_call_fields)
  have ws: "writes_since h ?h2 = [UpdateComment ?r (comment_id c) ?m]"
    using calls_since_append [OF cs] by (simp add: writes_since_def)
  have wf2: "wf_host ?h2"
    using wf by (simp add: wf_host_def record_call_fields list_all_iff set_body_fields)
  have "thread ?r ?n ?h2 = map ?sb (thread ?r ?n h)"
    by (simp add: thread_def record_call_fields filter_map_invariant set_body_fields)
  then have t: "length (thread ?r ?n ?h2) = length (thread ?r ?n h)" by simp
  show ?thesis
    using r b ws wf2 t by (intro exI [of _ ?h2]) (simp add: record_call_fields)
qed

lemma wf_host_getCommentId: "wf_host h \<Longrightarrow> wf_host (snd (getCommentId pl h))"
  by (simp add: wf_host_def comments_getCommentId)

lemma wf_host_writeComment: "wf_host h \<Longrightarrow> wf_host (snd (writeComment pl located h))"
  by (cases located) (simp_all add: writeComment_def wf_host_createComment wf_host_updateComment)

lemma wf_host_replaceComment: "wf_host h \<Longrightarrow> wf_host (snd (replaceComment pl h))"
proof -
  assume wf: "wf_host h"
  obtain res h' where g: "getCommentId pl h = (res, h')" by (cases "getCommentId pl h")
  with wf_host_getCommentId [OF wf, of pl] have wf': "wf_host h'" by simp
  show ?thesis
  proof (cases res)
    case (Inl e)
    with g wf' show ?thesis by (simp add: replaceComment_def)
  next
    case (Inr located)
    with g wf_host_writeComment [OF wf', of pl located] show ?thesis
      by (simp add: replaceComment_def)
  qed
qed

section \<open>One pipeline\<close>

lemma commentPayload_target:
  "pl_repoOptions (commentPayload env options) = repoOptions options"
  "pl_resourceOptions (commentPayload env options) = resourceOptions options"
  "message (pl_commentOptions (commentPayload env options)) = commentMessage env options"
  by (simp_all add: commentPayload_def)

lemma processComment_eq:
  "processComment env options h = replaceComment (commentPayload env options) h"
  by (simp add: processComment_def split: prod.splits sum.splits)

lemma getOperationStatus_resolved:
  "buildConfigOptions env option = Inr options \<Longrightarrow>
   getOperationStatus env option h = replaceComment (commentPayload env options) h"
  by (simp add: getOperationStatus_def processComment_eq)

lemma scenario_message_eq:
  "commentMessage scenario_env (scenario_options n) = scenario_message"
  by (simp add: commentMessage_def scenario_defs scenario_message_def)

lemma scenario_payload:
  "commentPayload scenario_env (scenario_options n) =
     \<lparr>pl_commentOptions = \<lparr>message = scenario_message\<rparr>,
      pl_repoOptions = scenario_repo,
      pl_resourceOptions = \<lparr>requestId = n\<rparr>\<rparr>"
  by (simp add: commentPayload_def scenario_message_eq) (simp add: scenario_options_def)

lemma scenario_options_target:
  "repoOptions (scenario_options n) = scenario_repo"
  "requestId (resourceOptions (scenario_options n)) = n"
  by (simp_all add: scenario_options_def)

lemma scenario_located:
  "getCommentId (commentPayload scenario_env (scenario_options 9))
     (scenario_host [scenario_comment 42 ''github-actions[bot]'']) =
   (Inr (Some 42),
    record_call (ListComments scenario_repo 9)
      (scenario_host [scenario_comment 42 ''github-actions[bot]'']))"
  by (simp add: getCommentId_def scenario_payload scenario_listing)
     (simp add: scenario_comment_def)

section \<open>A batch in which one pipeline runs\<close>

text \<open>
  When every other pipeline of the batch has ended at launch, the order in which the host
  serves the requests does not matter: the host ends as that one pipeline leaves it.
\<close>

lemma settle_Settled: "settle (Settled r) h = h"
  by (simp add: settle_def)

lemma settle_Writing: "settle (Writing pl located) h = snd (writeComment pl located h)"
  by (simp add: settle_def split: prod.splits)

lemma settle_Listing: "settle (Listing pl) h = snd (replaceComment pl h)"
  by (simp add: settle_def replaceComment_def split: prod.splits sum.splits)

lemma settle_advance: "settle (fst (advance t h)) (snd (advance t h)) = settle t h"
proof (cases t)
  case (Listing pl)
  then show ?thesis
    by (simp add: settle_Listing settle_Writing settle_Settled replaceComment_def
        split: prod.splits sum.splits)
next
  case (Writing pl located)
  then show ?thesis
    by (simp add: settle_Writing settle_Settled split: prod.splits)
next
  case (Settled r)
  then show ?thesis by (simp add: settle_Settled)
qed

lemma pending_advance: "pending (fst (advance t h)) \<le> pending t - 1"
  by (cases t) (auto split: prod.splits sum.splits)

lemma pending_zero: "pending t = 0 \<Longrightarrow> settle t h = h"
  by (cases t) (simp_all add: settle_Settled)

lemma note_rejection_Some: "note_rejection (Some e) t = Some e"
  by (simp add: note_rejection_def)

lemma step_single:
  assumes k: "k < length ts"
    and idle: "\<forall>j<length ts. j \<noteq> k \<longrightarrow> pending (ts ! j) = 0"
  shows "\<exists>ts' h' seen'. step i (ts, h, seen) = (ts', h', seen') \<and>
           length ts' = length ts \<and>
           (\<forall>j<length ts'. j \<noteq> k \<longrightarrow> pending (ts' ! j) = 0) \<and>
           settle (ts' ! k) h' = settle (ts ! k) h \<and>
           pending (ts' ! k) \<le> pending (ts ! k) \<and>
           (i = k \<longrightarrow> pending (ts' ! k) \<le> pending (ts ! k) - 1) \<and>
           (\<forall>e. seen = Some e \<longrightarrow> seen' = Some e)"
proof (cases "i < length ts \<and> pending (ts ! i) \<noteq> 0")
  case False
  then have "step i (ts, h, seen) = (ts, h, seen)"
    by (cases "ts ! i") auto
  moreover have "i = k \<longrightarrow> pending (ts ! k) = 0"
    using False k by auto
  ultimately show ?thesis using idle by auto
next
  case True
  with idle have ik: "i = k" by auto
  obtain t' h' where a: "advance (ts ! k) h = (t', h')" by (cases "advance (ts ! k) h")
  from True ik have st: "step i (ts, h, seen) = (ts[k := t'], h', note_rejection seen t')"
    using a by (cases "ts ! k") auto
  have s: "settle t' h' = settle (ts ! k) h"
    using settle_advance [of "ts ! k" h] a by simp
  have p: "pending t' \<le> pending (ts ! k) - 1"
    using pending_advance [of "ts ! k" h] a by simp
  show ?thesis
    using st s p k idle by (auto simp: note_rejection_Some)
qed

lemma fold_step_single:
  assumes "k < length ts"
    and "\<forall>j<length ts. j \<noteq> k \<longrightarrow> pending (ts ! j) = 0"
  shows "\<exists>ts' h' seen'. fold step sched (ts, h, seen) = (ts', h', seen') \<and>
           length ts' = length ts \<and>
           (\<forall>j<length ts'. j \<noteq> k \<longrightarrow> pending (ts' ! j) = 0) \<and>
           settle (ts' ! k) h' = settle (ts ! k) h \<and>
           pending (ts' ! k) \<le> pending (ts ! k) \<and>
           (\<forall>e. seen = Some e \<longrightarrow> seen' = Some e)"
  using assms
proof (induction sched arbitrary: ts h seen)
  case Nil
  then show ?case by simp
next
  case (Cons i sched)
  from step_single [OF Cons.prems, of i h seen]
  obtain ts1 h1 seen1 where s: "step i (ts, h, seen) = (ts1, h1, seen1)"
    and l: "length ts1 = length ts"
    and idle: "\<forall>j<length ts1. j \<noteq> k \<longrightarrow> pending (ts1 ! j) = 0"
    and se: "settle (ts1 ! k) h1 = settle (ts ! k) h"
    and p: "pending (ts1 ! k) \<le> pending (ts ! k)"
    and r: "\<forall>e. seen = Some e \<longrightarrow> seen1 = Some e"
    by blast
  from l Cons.prems(1) have k1: "k < length ts1" by simp
  from Cons.IH [OF k1 idle, of h1 seen1]
  obtain ts' h' seen' where f: "fold step sched (ts1, h1, seen1) = (ts', h', seen')"
    and l': "length ts' = length ts1"
    and idle': "\<forall>j<length ts'. j \<noteq> k \<longrightarrow> pending (ts' ! j) = 0"
    and se': "settle (ts' ! k) h' = settle (ts1 ! k) h1"
    and p': "pending (ts' ! k) \<le> pending (ts1 ! k)"
    and r': "\<forall>e. seen1 = Some e \<longrightarrow> seen' = Some e"
    by blast
  show ?case
    using s f l l' idle' se se' p p' r r' by auto
qed

lemma drain_split:
  assumes "k < n"
  shows "drain n = drain k @ [k, k] @ concat (map (\<lambda>i. [i, i]) [Suc k..<n])"
proof -
  have "[0..<k + (n - k)] = [0..<k] @ [k..<k + (n - k)]"
    by (rule upt_add_eq_append) simp
  moreover have "k + (n - k) = n" using assms by simp
  ultimately have "[0..<n] = [0..<k] @ [k..<n]" by simp
  also have "[k..<n] = k # [Suc k..<n]" using assms by (rule upt_conv_Cons)
  finally show ?thesis by (simp add: drain_def)
qed

lemma run_single:
  assumes k: "k < length ts"
    and idle: "\<forall>j<length ts. j \<noteq> k \<longrightarrow> pending (ts ! j) = 0"
  shows "\<exists>ts' seen'. fold step (sched @ drain (length ts)) (ts, h, seen) =
           (ts', settle (ts ! k) h, seen') \<and> (\<forall>e. seen = Some e \<longrightarrow> seen' = Some e)"
proof -
  let ?rest = "concat (map (\<lambda>i. [i, i]) [Suc k..<length ts])"
  have sp: "sched @ drain (length ts) = (sched @ drain k) @ [k, k] @ ?rest"
    using drain_split [OF k] by simp
  from fold_step_single [OF k idle, of "sched @ drain k" h seen]
  obtain ts1 h1 seen1 where f1: "fold step (sched @ drain k) (ts, h, seen) = (ts1, h1, seen1)"
    and l1: "length ts1 = length ts"
    and i1: "\<forall>j<length ts1. j \<noteq> k \<longrightarrow> pending (ts1 ! j) = 0"
    and s1: "settle (ts1 ! k) h1 = settle (ts ! k) h"
    and r1: "\<forall>e. seen = Some e \<longrightarrow> seen1 = Some e"
    by blast
  from l1 k have k1: "k < length ts1" by simp
  from step_single [OF k1 i1, of k h1 seen1]
  obtain ts2 h2 seen2 where f2: "step k (ts1, h1, seen1) = (ts2, h2, seen2)"
    and l2: "length ts2 = length ts1"
    and i2: "\<forall>j<length ts2. j \<noteq> k \<longrightarrow> pending (ts2 ! j) = 0"
    and s2: "settle (ts2 ! k) h2 = settle (ts1 ! k) h1"
    and p2: "pending (ts2 ! k) \<le> pending (ts1 ! k) - 1"
    and r2: "\<forall>e. seen1 = Some e \<longrightarrow> seen2 = Some e"
    by blast
  from l2 k1 have k2: "k < length ts2" by simp
  from step_single [OF k2 i2, of k h2 seen2]
  obtain ts3 h3 seen3 where f3: "step k (ts2, h2, seen2) = (ts3, h3, seen3)"
    and l3: "length ts3 = length ts2"
    and i3: "\<forall>j<length ts3. j \<noteq> k \<longrightarrow> pending (ts3 ! j) = 0"
    and s3: "settle (ts3 ! k) h3 = settle (ts2 ! k) h2"
    and p3: "pending (ts3 ! k) \<le> pending (ts2 ! k) - 1"
    and r3: "\<forall>e. seen2 = Some e \<longrightarrow> seen3 = Some e"
    by blast
  from l3 k2 have k3: "k < length ts3" by simp
  from fold_step_single [OF k3 i3, of ?rest h3 seen3]
  obtain ts4 h4 seen4 where f4: "fold step ?rest (ts3, h3, seen3) = (ts4, h4, seen4)"
    and s4: "settle (ts4 ! k) h4 = settle (ts3 ! k) h3"
    and p4: "pending (ts4 ! k) \<le> pending (ts3 ! k)"
    and r4: "\<forall>e. seen3 = Some e \<longrightarrow> seen4 = Some e"
    by blast
  have "pending (ts1 ! k) \<le> 2" by (cases "ts1 ! k") simp_all
  with p2 p3 p4 have "pending (ts4 ! k) = 0" by arith
  then have "settle (ts4 ! k) h4 = h4" by (rule pending_zero)
  with s1 s2 s3 s4 have h4: "h4 = settle (ts ! k) h" by simp
  have "fold step (sched @ drain (length ts)) (ts, h, seen) = (ts4, h4, seen4)"
    unfolding sp using f1 f2 f3 f4 by simp
  with h4 r1 r2 r3 r4 show ?thesis by auto
qed

lemma launch_resolved:
  "buildConfigOptions env option = Inr options \<Longrightarrow>
   launch env option = Listing (commentPayload env options)"
  by (simp add: launch_def)

lemma launch_failed:
  "buildConfigOptions env option = Inl e \<Longrightarrow> launch env option = Settled (Inl e)"
  by (simp add: launch_def)

lemma executeOperation_single:
  assumes k: "k < length options"
    and idle: "\<forall>j<length options. j \<noteq> k \<longrightarrow> pending (launch env (options ! j)) = 0"
    and rej: "first_rejection (map (launch env) options) = Some e"
  shows "executeOperation env options sched h = (Inl e, settle (launch env (options ! k)) h)"
proof -
  let ?ts = "map (launch env) options"
  have k': "k < length ?ts" using k by simp
  have idle': "\<forall>j<length ?ts. j \<noteq> k \<longrightarrow> pending (?ts ! j) = 0" using idle by simp
  from run_single [OF k' idle', of sched h "Some e"]
  obtain ts' where "fold step (sched @ drain (length ?ts)) (?ts, h, Some e) =
      (ts', settle (?ts ! k) h, Some e)"
    by auto
  then show ?thesis
    using k by (simp add: executeOperation_def Let_def rej del: fold_append)
qed

lemma executeOperation_host:
  assumes k: "k < length options"
    and idle: "\<forall>j<length options. j \<noteq> k \<longrightarrow> pending (launch env (options ! j)) = 0"
  shows "snd (executeOperation env options sched h) = settle (launch env (options ! k)) h"
proof -
  let ?ts = "map (launch env) options"
  have k': "k < length ?ts" using k by simp
  have idle': "\<forall>j<length ?ts. j \<noteq> k \<longrightarrow> pending (?ts ! j) = 0" using idle by simp
  from run_single [OF k' idle', of sched h "first_rejection ?ts"]
  obtain ts' seen' where "fold step (sched @ drain (length ?ts)) (?ts, h, first_rejection ?ts) =
      (ts', settle (?ts ! k) h, seen')"
    by auto
  then show ?thesis
    using k by (simp add: executeOperation_def Let_def del: fold_append split: option.splits)
qed

section \<open>The scenarios, run\<close>

text \<open>
  The end-to-end scenario and the update scenario of the specification, started from
  the batch file. A located identifier 0, which no host with positive identifiers holds,
  selects the create call.
\<close>

lemma scenario_batch:
  "snd (getOperationResult scenario_env ''batch.json'' sched h) =
   snd (replaceComment (commentPayload scenario_env (scenario_options 9)) h)"
proof -
  have r: "buildConfigOptions scenario_env (batch_entry None (Some 9)) = Inr (scenario_options 9)"
    by (simp add: scenario_resolves)
  have "operationParams scenario_env ''batch.json'' = Inr [batch_entry None (Some 9)]"
    by (simp add: operationParams_def isValidFile_def getConfigOptions_def ends_with_def
        scenario_env_def)
  then have "getOperationResult scenario_env ''batch.json'' sched h =
      executeOperation scenario_env [batch_entry None (Some 9)] sched h"
    by (simp add: getOperationResult_def)
  also have "snd \<dots> = settle (launch scenario_env ([batch_entry None (Some 9)] ! 0)) h"
    by (rule executeOperation_host) simp_all
  finally show ?thesis
    by (simp add: launch_resolved [OF r] settle_Listing)
qed

lemma end_to_end_scenario:
  "snd (getOperationResult scenario_env ''batch.json'' sched (scenario_host [])) =
     \<lparr>issues = [(scenario_repo, 9)],
      comments = [\<lparr>comment_id = 1, user_login = bot_login, body = scenario_message,
                   comment_repo = scenario_repo, issue_number = 9\<rparr>],
      actor = bot_login,
      per_page = 30,
      calls = [ListComments scenario_repo 9, CreateComment scenario_repo 9 scenario_message]\<rparr>"
  unfolding scenario_batch scenario_payload by code_simp

lemma update_scenario:
  "calls (snd (getOperationResult scenario_env ''batch.json'' sched
                 (scenario_host [scenario_comment 42 bot_login]))) =
     [ListComments scenario_repo 9, UpdateComment scenario_repo 42 scenario_message]"
  unfolding scenario_batch scenario_payload by code_simp

lemma zero_identifier_scenario:
  "calls (snd (getOperationResult scenario_env ''batch.json'' sched
                 (scenario_host [scenario_comment 0 bot_login]))) =
     [ListComments scenario_repo 9, CreateComment scenario_repo 9 scenario_message]"
  unfolding scenario_batch scenario_payload by code_simp

text \<open>
  Two entries for the same target, both listed before either writes, create two comments:
  the pipelines of a batch are not serialised.
\<close>

lemma same_target_scenario:
  "calls (snd (executeOperation scenario_env
      [batch_entry None (Some 9), batch_entry None (Some 9)] [0, 1] (scenario_host []))) =
   [ListComments scenario_repo 9, ListComments scenario_repo 9,
    CreateComment scenario_repo 9 scenario_message,
    CreateComment scenario_repo 9 scenario_message]"
proof -
  have r: "buildConfigOptions scenario_env (batch_entry None (Some 9)) = Inr (scenario_options 9)"
    by (simp add: scenario_resolves)
  have l: "map (launch scenario_env) [batch_entry None (Some 9), batch_entry None (Some 9)] =
      [Listing \<lparr>pl_commentOptions = \<lparr>message = scenario_message\<rparr>,
                pl_repoOptions = scenario_repo, pl_resourceOptions = \<lparr>requestId = 9\<rparr>\<rparr>,
       Listing \<lparr>pl_commentOptions = \<lparr>message = scenario_message\<rparr>,
                pl_repoOptions = scenario_repo, pl_resourceOptions = \<lparr>requestId = 9\<rparr>\<rparr>]"
    by (simp add: launch_resolved [OF r] scenario_payload)
  show ?thesis
    unfolding executeOperation_def l by code_simp
qed

section \<open>Claims\<close>

subsection \<open>Idempotency\<close>

text \<open>
  Claim C1, as amended. The pipeline runs twice on the same target with the same partial
  configuration; only the commit of the ambient context may differ between the runs. The
  target exists on the host, the token is the bot identity, the identifiers of the host
  are positive, the thread holds at most one bot comment before the first run, and it
  holds fewer comments than a page of the listing, so that the one request of the locator
  lists all of it in both runs. Then the thread holds exactly one bot comment after the
  first run, the second run writes once, an update of that very comment, and after the
  second run the thread holds that comment alone among the bot comments, with the body
  that the second run has built.
\<close>

theorem idempotent_publish:
  assumes resolved: "buildConfigOptions env option = Inr options"
    and issue: "(repoOptions options, requestId (resourceOptions options)) \<in> set (issues h)"
    and wf: "wf_host h"
    and bot: "actor h = bot_login"
    and prior:
      "length (botComments (repoOptions options) (requestId (resourceOptions options)) h) \<le> 1"
    and page:
      "length (thread (repoOptions options) (requestId (resourceOptions options)) h) < per_page h"
    and env': "env' = env\<lparr>github_context := (github_context env)\<lparr>sha := s\<rparr>\<rparr>"
    and h1: "h1 = snd (getOperationStatus env option h)"
    and h2: "h2 = snd (getOperationStatus env' option h1)"
  shows "\<exists>c. botComments (repoOptions options) (requestId (resourceOptions options)) h1 = [c] \<and>
           botComments (repoOptions options) (requestId (resourceOptions options)) h2 =
             [c\<lparr>body := commentMessage env' options\<rparr>] \<and>
           writes_since h1 h2 =
             [UpdateComment (repoOptions options) (comment_id c) (commentMessage env' options)]"
proof -
  let ?r = "repoOptions options" and ?n = "requestId (resourceOptions options)"
  let ?pl = "commentPayload env options" and ?pl' = "commentPayload env' options"
  have run1: "getOperationStatus env option h = replaceComment ?pl h"
    by (rule getOperationStatus_resolved [OF resolved])
  have "buildConfigOptions env' option = Inr options"
    unfolding env' by (simp add: buildConfigOptions_sha resolved)
  then have run2: "getOperationStatus env' option h1 = replaceComment ?pl' h1"
    by (rule getOperationStatus_resolved)
  have first: "\<exists>c. botComments ?r ?n h1 = [c] \<and> wf_host h1 \<and> issues h1 = issues h \<and>
      length (thread ?r ?n h1) \<le> per_page h1"
  proof (cases "botComments ?r ?n h")
    case Nil
    with replaceComment_creates [of ?pl h] issue bot wf page show ?thesis
      by (auto simp: commentPayload_target h1 run1)
  next
    case (Cons c cs)
    with prior have "botComments ?r ?n h = [c]" by simp
    with replaceComment_updates [of ?pl h c] issue wf page show ?thesis
      by (auto simp: commentPayload_target h1 run1)
  qed
  then obtain c where c: "botComments ?r ?n h1 = [c]" and wf1: "wf_host h1"
    and issues1: "issues h1 = issues h" and page1: "length (thread ?r ?n h1) \<le> per_page h1"
    by blast
  from replaceComment_updates [of ?pl' h1 c] c wf1 issues1 issue page1
  have "botComments ?r ?n h2 = [c\<lparr>body := commentMessage env' options\<rparr>] \<and>
        writes_since h1 h2 = [UpdateComment ?r (comment_id c) (commentMessage env' options)]"
    by (auto simp: commentPayload_target h2 run2)
  with c show ?thesis by blast
qed

text \<open>
  The scenario of the specification, run twice on a thread without comments: the bodies
  of the bot comments after both runs are the single body of the second run.
\<close>

theorem idempotent_publish_witness:
  "buildConfigOptions scenario_env (batch_entry None (Some 9)) = Inr (scenario_options 9) \<and>
   wf_host (scenario_host []) \<and> actor (scenario_host []) = bot_login \<and>
   (scenario_repo, 9) \<in> set (issues (scenario_host [])) \<and>
   botComments scenario_repo 9 (scenario_host []) = [] \<and>
   length (thread scenario_repo 9 (scenario_host [])) < per_page (scenario_host []) \<and>
   map body
     (botComments scenario_repo 9
        (snd (getOperationStatus later_env (batch_entry None (Some 9))
           (snd (getOperationStatus scenario_env (batch_entry None (Some 9))
              (scenario_host [])))))) =
   [commentMessage later_env (scenario_options 9)]"
proof -
  have r: "buildConfigOptions scenario_env (batch_entry None (Some 9)) = Inr (scenario_options 9)"
    by (simp add: scenario_resolves)
  have i: "(repoOptions (scenario_options 9), requestId (resourceOptions (scenario_options 9)))
             \<in> set (issues (scenario_host []))"
    by (simp add: scenario_options_target scenario_host_facts)
  have p: "length (botComments (repoOptions (scenario_options 9))
             (requestId (resourceOptions (scenario_options 9))) (scenario_host [])) \<le> 1"
    by (simp add: scenario_options_target scenario_host_facts)
  have q: "length (thread (repoOptions (scenario_options 9))
             (requestId (resourceOptions (scenario_options 9))) (scenario_host []))
           < per_page (scenario_host [])"
    by (simp add: scenario_options_target scenario_host_facts)
  from idempotent_publish
    [OF r i scenario_host_facts(1) scenario_host_facts(2) p q later_env_def refl refl]
  obtain c where
    "botComments scenario_repo 9
       (snd (getOperationStatus later_env (batch_entry None (Some 9))
          (snd (getOperationStatus scenario_env (batch_entry None (Some 9))
             (scenario_host []))))) =
     [c\<lparr>body := commentMessage later_env (scenario_options 9)\<rparr>]"
    by (auto simp: scenario_options_target)
  then show ?thesis using r by (simp add: scenario_host_facts)
qed

text \<open>
  The claim as stated fails. On a thread that already fills the first page with thirty
  comments by alice, every other condition holds, the first run creates comment 31, the
  second run does not see it on the page it lists and creates comment 32: two bot
  comments after both runs.
\<close>

theorem idempotent_publish_counterexample:
  "wf_host (scenario_host long_thread) \<and> actor (scenario_host long_thread) = bot_login \<and>
   botComments scenario_repo 9 (scenario_host long_thread) = [] \<and>
   map comment_id
     (botComments scenario_repo 9
        (snd (getOperationStatus later_env (batch_entry None (Some 9))
           (snd (getOperationStatus scenario_env (batch_entry None (Some 9))
              (scenario_host long_thread)))))) =
   [31, 32] \<and>
   writes_since
     (snd (getOperationStatus scenario_env (batch_entry None (Some 9))
        (scenario_host long_thread)))
     (snd (getOperationStatus later_env (batch_entry None (Some 9))
        (snd (getOperationStatus scenario_env (batch_entry None (Some 9))
           (scenario_host long_thread))))) =
   [CreateComment scenario_repo 9 (commentMessage later_env (scenario_options 9))]"
proof -
  have r: "buildConfigOptions scenario_env (batch_entry None (Some 9)) = Inr (scenario_options 9)"
    by (simp add: scenario_resolves)
  then have r': "buildConfigOptions later_env (batch_entry None (Some 9)) = Inr (scenario_options 9)"
    by (simp add: later_env_def buildConfigOptions_sha)
  have m: "commentPayload later_env (scenario_options 9) =
      (commentPayload scenario_env (scenario_options 9))
        \<lparr>pl_commentOptions := \<lparr>message = commentMessage later_env (scenario_options 9)\<rparr>\<rparr>"
    by (simp add: commentPayload_def)
  show ?thesis
    unfolding getOperationStatus_resolved [OF r] getOperationStatus_resolved [OF r']
      m scenario_payload
    by code_simp
qed

subsection \<open>Validation of the identifier\<close>

text \<open>
  Claim C2. The candidate is what the three tiers of lines 74 to 77 yield. Resolution
  fails with \<open>ValueError\<close> when no tier yields a candidate, when the candidate is a
  number that is negative or zero or the decimal string of one, and when the candidate
  is a string that is no integer numeral at all. For every strictly positive integer, a
  candidate that is this number, or its decimal string, resolves, and the resolved
  identifier is that integer.
\<close>

theorem requestId_validation:
  "(resolveRequestId env options = Undefined \<longrightarrow>
      buildConfigOptions env options = Inl ValueError) \<and>
   (resolveRequestId env options = Num n \<and> int_of n \<le> 0 \<longrightarrow>
      buildConfigOptions env options = Inl ValueError) \<and>
   (resolveRequestId env options = Str (show_int k) \<and> k \<le> 0 \<longrightarrow>
      buildConfigOptions env options = Inl ValueError) \<and>
   (resolveRequestId env options = Str s \<and> \<not> numeral_string s \<longrightarrow>
      buildConfigOptions env options = Inl ValueError) \<and>
   ((resolveRequestId env options = Num n \<or>
     resolveRequestId env options = Str (show_int (int_of n))) \<and> 0 < int_of n \<longrightarrow>
      (\<exists>cfg. buildConfigOptions env options = Inr cfg \<and>
             requestId (resourceOptions cfg) = int_of n))"
  by (auto simp: buildConfigOptions_undefined buildConfigOptions_Num
      buildConfigOptions_Num_rejected buildConfigOptions_Str toInt_show_int
      toInt_show_int_rejected toInt_no_numeral int_of_safe)

text \<open>
  No candidate at all; the explicit number \<open>-5\<close>; the single-run inputs \<open>0\<close> and
  \<open>12a\<close>; the explicit number 9; the single-run input \<open>10\<close>.
\<close>

theorem requestId_validation_witness:
  "buildConfigOptions scenario_env emptyPartial = Inl ValueError \<and>
   buildConfigOptions scenario_env (batch_entry None (Some (- 5))) = Inl ValueError \<and>
   buildConfigOptions (scenario_env\<lparr>inputs := [''requestId'' \<mapsto> ''0'']\<rparr>) emptyPartial
     = Inl ValueError \<and>
   buildConfigOptions (scenario_env\<lparr>inputs := [''requestId'' \<mapsto> ''12a'']\<rparr>) emptyPartial
     = Inl ValueError \<and>
   (\<exists>cfg. buildConfigOptions scenario_env (batch_entry None (Some 9)) = Inr cfg \<and>
      requestId (resourceOptions cfg) = 9) \<and>
   (\<exists>cfg. buildConfigOptions (scenario_env\<lparr>inputs := [''requestId'' \<mapsto> ''10'']\<rparr>) emptyPartial
      = Inr cfg \<and> requestId (resourceOptions cfg) = 10)"
proof -
  let ?zero = "scenario_env\<lparr>inputs := [''requestId'' \<mapsto> ''0'']\<rparr>"
  let ?word = "scenario_env\<lparr>inputs := [''requestId'' \<mapsto> ''12a'']\<rparr>"
  let ?ten = "scenario_env\<lparr>inputs := [''requestId'' \<mapsto> ''10'']\<rparr>"
  have i5: "int_of (jsint (- 5)) = - 5" and i9: "int_of (jsint 9) = 9"
    and i10: "int_of (jsint 10) = 10"
    by (simp_all add: int_of_jsint)
  have u: "resolveRequestId scenario_env emptyPartial = Undefined"
    by (simp add: scenario_defs resolver_defs)
  have m: "resolveRequestId scenario_env (batch_entry None (Some (- 5))) = Num (jsint (- 5))"
    by (simp add: scenario_candidate i5)
  have d0: "show_int 0 = ''0''" by code_simp
  have z: "resolveRequestId ?zero emptyPartial = Str (show_int 0)"
    unfolding d0 by (simp add: scenario_defs resolver_defs)
  have w: "resolveRequestId ?word emptyPartial = Str ''12a''"
    by (simp add: scenario_defs resolver_defs)
  have nw: "\<not> numeral_string ''12a''"
    by (simp add: numeral_string_def is_digit_def)
  have n: "resolveRequestId scenario_env (batch_entry None (Some 9)) = Num (jsint 9)"
    by (simp add: scenario_candidate i9)
  have d10: "show_int 10 = ''10''" by code_simp
  have t: "resolveRequestId ?ten emptyPartial = Str (show_int (int_of (jsint 10)))"
    unfolding i10 d10 by (simp add: scenario_defs resolver_defs)
  show ?thesis
    using requestId_validation [of scenario_env emptyPartial "jsint 9" 0 "''12a''"]
      requestId_validation [of scenario_env "batch_entry None (Some (- 5))" "jsint (- 5)" 0 "''12a''"]
      requestId_validation [of ?zero emptyPartial "jsint 9" 0 "''12a''"]
      requestId_validation [of ?word emptyPartial "jsint 9" 0 "''12a''"]
      requestId_validation [of scenario_env "batch_entry None (Some 9)" "jsint 9" 0 "''12a''"]
      requestId_validation [of ?ten emptyPartial "jsint 10" 0 "''12a''"]
      u m z w nw n t i5 i9 i10
    by simp
qed

subsection \<open>Comment locator\<close>

text \<open>
  Claim C3. For every list of comments that the host returns for the target,
  \<^verbatim>\<open>getCommentId\<close> returns the identifier of the first comment in list order whose author
  is \<open>github-actions[bot]\<close>, and no identifier when no comment of the list has that
  author. For a list by alice, the bot and the bot, in that order, it returns the
  identifier of the second element.
\<close>

theorem locator_first_bot_comment:
  assumes "listComments (pl_repoOptions options) (requestId (pl_resourceOptions options)) h
             = (Inr cs, h')"
  shows "getCommentId options h = (Inr (map_option comment_id (find is_bot cs)), h') \<and>
         ((\<forall>c \<in> set cs. user_login c \<noteq> ''github-actions[bot]'') \<longrightarrow>
            getCommentId options h = (Inr None, h')) \<and>
         (cs = [a, b, c] \<and> user_login a = ''alice'' \<and>
          user_login b = ''github-actions[bot]'' \<and> user_login c = ''github-actions[bot]'' \<longrightarrow>
            getCommentId options h = (Inr (Some (comment_id b)), h'))"
proof (intro conjI impI)
  show g: "getCommentId options h = (Inr (map_option comment_id (find is_bot cs)), h')"
    by (rule getCommentId_listed [OF assms])
  {
    assume "\<forall>c \<in> set cs. user_login c \<noteq> ''github-actions[bot]''"
    then have "find is_bot cs = None"
      by (simp add: find_None_iff is_bot_def bot_login_def)
    with g show "getCommentId options h = (Inr None, h')" by simp
  }
  {
    assume "cs = [a, b, c] \<and> user_login a = ''alice'' \<and>
          user_login b = ''github-actions[bot]'' \<and> user_login c = ''github-actions[bot]''"
    then have "find is_bot cs = Some b"
      by (simp add: is_bot_def bot_login_def)
    with g show "getCommentId options h = (Inr (Some (comment_id b)), h')" by simp
  }
qed

text \<open>
  The thread of alice, the bot and the bot, with identifiers 1, 2 and 3; and a thread
  with the comment of alice alone.
\<close>

theorem locator_first_bot_comment_witness:
  "getCommentId (commentPayload scenario_env (scenario_options 9)) (scenario_host scenario_thread) =
     (Inr (Some 2), record_call (ListComments scenario_repo 9) (scenario_host scenario_thread)) \<and>
   getCommentId (commentPayload scenario_env (scenario_options 9))
       (scenario_host [scenario_comment 1 ''alice'']) =
     (Inr None,
      record_call (ListComments scenario_repo 9) (scenario_host [scenario_comment 1 ''alice'']))"
proof -
  let ?pl = "commentPayload scenario_env (scenario_options 9)"
  have l: "listComments (pl_repoOptions ?pl) (requestId (pl_resourceOptions ?pl))
             (scenario_host scenario_thread) =
           (Inr scenario_thread,
            record_call (ListComments scenario_repo 9) (scenario_host scenario_thread))"
    by (simp add: scenario_payload scenario_listing)
       (simp add: scenario_thread_def scenario_comment_def)
  have m: "listComments (pl_repoOptions ?pl) (requestId (pl_resourceOptions ?pl))
             (scenario_host [scenario_comment 1 ''alice'']) =
           (Inr [scenario_comment 1 ''alice''],
            record_call (ListComments scenario_repo 9)
              (scenario_host [scenario_comment 1 ''alice'']))"
    by (simp add: scenario_payload scenario_listing) (simp add: scenario_comment_def)
  from locator_first_bot_comment [OF l, of "scenario_comment 1 ''alice''"
        "scenario_comment 2 ''github-actions[bot]''" "scenario_comment 3 ''github-actions[bot]''"]
  have "getCommentId ?pl (scenario_host scenario_thread) =
     (Inr (Some 2), record_call (ListComments scenario_repo 9) (scenario_host scenario_thread))"
    by (simp add: scenario_thread_def) (simp add: scenario_comment_def is_bot_def bot_login_def)
  moreover from locator_first_bot_comment [OF m]
  have "getCommentId ?pl (scenario_host [scenario_comment 1 ''alice'']) =
     (Inr None,
      record_call (ListComments scenario_repo 9) (scenario_host [scenario_comment 1 ''alice'']))"
    by (simp add: scenario_comment_def is_bot_def bot_login_def)
  ultimately show ?thesis by simp
qed

subsection \<open>Comment publisher\<close>

text \<open>
  Claim C4. Whenever the locator returns, \<^verbatim>\<open>replaceComment\<close> issues exactly one write,
  never two. On a host whose identifiers are positive, that write is the update of the
  located comment with the new body when a prior bot comment was located, and otherwise
  the creation of a comment on the target with the new body. (The program tests the
  located identifier for truthiness: the update is chosen for a located identifier other
  than 0, which the identifiers of the host are.)
\<close>

theorem publisher_exactly_one_write:
  assumes located: "getCommentId options h = (Inr located, h')"
  shows "length (writes_since h (snd (replaceComment options h))) = 1 \<and>
         (wf_host h \<longrightarrow>
            writes_since h (snd (replaceComment options h)) = [publishCall options located])"
proof (intro conjI impI)
  let ?list = "ListComments (pl_repoOptions options) (requestId (pl_resourceOptions options))"
  have l: "calls h' = calls h @ [?list]"
    using calls_getCommentId [of options h] located by simp
  have r: "replaceComment options h = writeComment options located h'"
    using located by (simp add: replaceComment_def)
  obtain w where w: "calls (snd (writeComment options located h')) = calls h' @ [w]"
    and isw: "is_write w"
    using calls_writeComment_any by blast
  have "calls (snd (replaceComment options h)) = calls h @ [?list, w]"
    by (simp add: r w l)
  then have "calls_since h (snd (replaceComment options h)) = [?list, w]"
    by (rule calls_since_append)
  with isw show "length (writes_since h (snd (replaceComment options h))) = 1"
    by (simp add: writes_since_def)
  assume wf: "wf_host h"
  have nz: "located \<noteq> Some 0"
    using located_positive [OF wf] located by auto
  have "calls (snd (replaceComment options h)) = calls h @ [?list, publishCall options located]"
    by (simp add: r calls_writeComment [OF nz] l)
  then have "calls_since h (snd (replaceComment options h)) =
      [?list, publishCall options located]"
    by (rule calls_since_append)
  then show "writes_since h (snd (replaceComment options h)) = [publishCall options located]"
    by (simp add: writes_since_def publishCall_write)
qed

text \<open>The update scenario of the specification: a prior bot comment with identifier 42.\<close>

theorem publisher_exactly_one_write_witness:
  "wf_host (scenario_host [scenario_comment 42 ''github-actions[bot]'']) \<and>
   writes_since (scenario_host [scenario_comment 42 ''github-actions[bot]''])
     (snd (replaceComment (commentPayload scenario_env (scenario_options 9))
        (scenario_host [scenario_comment 42 ''github-actions[bot]'']))) =
   [UpdateComment scenario_repo 42 scenario_message]"
proof -
  have w: "wf_host (scenario_host [scenario_comment 42 ''github-actions[bot]''])"
    by (simp add: wf_host_def scenario_host_def scenario_comment_def)
  show ?thesis
    using publisher_exactly_one_write [OF scenario_located] w
    by (simp add: publishCall_def scenario_payload)
qed

subsection \<open>Body of the comment\<close>

text \<open>
  Claim C5. The body is the image reference built from the endpoint, the theme and the
  layout, then two newlines, then the attribution line naming the commit. Every write
  that \<^verbatim>\<open>processComment\<close> issues carries this body, and it issues exactly one when the
  target exists. With theme \<open>light\<close>, layout \<open>classic\<close> and commit \<open>abc123\<close> the body
  is the one of the end-to-end scenario.
\<close>

theorem published_body:
  "commentMessage env options =
     ''![Styled Proverbs]('' @ request_url env @ ''?theme='' @ theme (styleOptions options) @
     ''&layout='' @ layout (styleOptions options) @ '')'' @ [newline, newline] @
     ''Triggered by commit: '' @ sha (github_context env) \<and>
   map call_body (writes_since h (snd (processComment env options h))) =
     (if (repoOptions options, requestId (resourceOptions options)) \<in> set (issues h)
      then [commentMessage env options] else []) \<and>
   (theme (styleOptions options) = ''light'' \<and> layout (styleOptions options) = ''classic'' \<and>
    sha (github_context env) = ''abc123'' \<longrightarrow>
      commentMessage env options =
        ''![Styled Proverbs]('' @ request_url env @ ''?theme=light&layout=classic)'' @
        [newline, newline] @ ''Triggered by commit: abc123'')"
proof (intro conjI impI)
  show "commentMessage env options =
     ''![Styled Proverbs]('' @ request_url env @ ''?theme='' @ theme (styleOptions options) @
     ''&layout='' @ layout (styleOptions options) @ '')'' @ [newline, newline] @
     ''Triggered by commit: '' @ sha (github_context env)"
    by (simp add: commentMessage_def)
  show "map call_body (writes_since h (snd (processComment env options h))) =
     (if (repoOptions options, requestId (resourceOptions options)) \<in> set (issues h)
      then [commentMessage env options] else [])"
    using write_bodies_replaceComment [of h "commentPayload env options"]
    by (simp add: processComment_eq commentPayload_def)
  assume "theme (styleOptions options) = ''light'' \<and> layout (styleOptions options) = ''classic'' \<and>
    sha (github_context env) = ''abc123''"
  then show "commentMessage env options =
        ''![Styled Proverbs]('' @ request_url env @ ''?theme=light&layout=classic)'' @
        [newline, newline] @ ''Triggered by commit: abc123''"
    by (simp add: commentMessage_def)
qed

theorem published_body_witness:
  "map call_body
     (writes_since (scenario_host [])
        (snd (processComment scenario_env (scenario_options 9) (scenario_host [])))) =
   [''![Styled Proverbs](<endpoint>?theme=light&layout=classic)'' @ [newline, newline] @
    ''Triggered by commit: abc123'']"
  using published_body [of scenario_env "scenario_options 9" "scenario_host []"]
  by (simp add: scenario_defs scenario_host_def)

subsection \<open>Precedence of the style options\<close>

text \<open>
  Claim C6, as amended. When resolution succeeds: with the theme unset on the partial
  configuration, the resolved theme is the single-run input when that input is present
  and the ambient default otherwise; with an explicit theme that is not the empty
  string, the resolved theme is that explicit value, whatever the single-run input and
  the default are. Likewise for the layout.
\<close>

theorem style_precedence:
  assumes "buildConfigOptions env options = Inr cfg"
  shows "(chain (p_styleOptions options) p_theme = None \<longrightarrow>
            theme (styleOptions cfg) =
              (case inputs env ''theme'' of
                 Some v \<Rightarrow> v
               | None \<Rightarrow> (case defaults env ''theme'' of Some d \<Rightarrow> d | None \<Rightarrow> []))) \<and>
         (chain (p_styleOptions options) p_layout = None \<longrightarrow>
            layout (styleOptions cfg) =
              (case inputs env ''layout'' of
                 Some v \<Rightarrow> v
               | None \<Rightarrow> (case defaults env ''layout'' of Some d \<Rightarrow> d | None \<Rightarrow> []))) \<and>
         (chain (p_styleOptions options) p_theme = Some t \<and> t \<noteq> [] \<longrightarrow>
            theme (styleOptions cfg) = t) \<and>
         (chain (p_styleOptions options) p_layout = Some l \<and> l \<noteq> [] \<longrightarrow>
            layout (styleOptions cfg) = l)"
  using buildConfigOptions_style [OF assms]
  by (simp add: resolveTheme_def resolveLayout_def str_or_def getProperty_def)

text \<open>
  The entry for number 9 without style options, under the defaults; and the entry of the
  README with theme \<open>nightOwl\<close> and layout \<open>churchill\<close>, under the single-run theme
  \<open>dark\<close>.
\<close>

theorem style_precedence_witness:
  "buildConfigOptions scenario_env (batch_entry None (Some 9)) = Inr (scenario_options 9) \<and>
   theme (styleOptions (scenario_options 9)) = ''light'' \<and>
   layout (styleOptions (scenario_options 9)) = ''classic'' \<and>
   buildConfigOptions (scenario_env\<lparr>inputs := [''theme'' \<mapsto> ''dark'']\<rparr>) readme_entry =
     Inr ((scenario_options 10)\<lparr>styleOptions := \<lparr>theme = ''nightOwl'', layout = ''churchill''\<rparr>\<rparr>)"
proof -
  have a: "buildConfigOptions scenario_env (batch_entry None (Some 9)) = Inr (scenario_options 9)"
    by (simp add: scenario_resolves)
  have b: "buildConfigOptions (scenario_env\<lparr>inputs := [''theme'' \<mapsto> ''dark'']\<rparr>) readme_entry =
     Inr ((scenario_options 10)\<lparr>styleOptions := \<lparr>theme = ''nightOwl'', layout = ''churchill''\<rparr>\<rparr>)"
    by (subst buildConfigOptions_Num [where n = "jsint 10"])
       (simp_all add: scenario_defs resolver_defs readme_entry_def int_of_jsint
          truthy_number_def)
  show ?thesis
    using style_precedence [OF a, of "[]" "[]"]
      style_precedence [OF b, of "''nightOwl''" "''churchill''"] a b
    by (simp add: scenario_defs chain_def readme_entry_def)
qed

text \<open>
  The claim as stated fails: an explicit theme that is the empty string does not win
  over the single-run input \<open>dark\<close>.
\<close>

theorem style_precedence_counterexample:
  "buildConfigOptions (scenario_env\<lparr>inputs := [''theme'' \<mapsto> ''dark'']\<rparr>)
     (batch_entry (Some []) (Some 9))
   = Inr ((scenario_options 9)\<lparr>styleOptions := \<lparr>theme = ''dark'', layout = ''classic''\<rparr>\<rparr>)"
  by (subst buildConfigOptions_Num [where n = "jsint 9"])
     (simp_all add: scenario_defs resolver_defs int_of_jsint truthy_number_def)

subsection \<open>Batch expander\<close>

text \<open>
  Claim C7. A source that does not name an existing file with the extension
  \<^verbatim>\<open>.json\<close> yields the batch of one empty partial configuration; a source that names
  such a file yields the partial configurations parsed from it. The batch is what
  \<^verbatim>\<open>getOperationResult\<close> hands to \<^verbatim>\<open>executeOperation\<close>.
\<close>

theorem batch_expander:
  "(\<not> (files env sourceData \<noteq> None \<and> ends_with ''.json'' sourceData) \<longrightarrow>
      operationParams env sourceData = Inr [emptyPartial] \<and>
      getOperationResult env sourceData sched h = executeOperation env [emptyPartial] sched h) \<and>
   (files env sourceData = Some (Inr params) \<and> ends_with ''.json'' sourceData \<longrightarrow>
      operationParams env sourceData = Inr params \<and>
      getOperationResult env sourceData sched h = executeOperation env params sched h)"
  by (simp add: operationParams_def getOperationResult_def isValidFile_def getConfigOptions_def)

theorem batch_expander_witness:
  "operationParams scenario_env [] = Inr [emptyPartial] \<and>
   operationParams scenario_env ''batch.txt'' = Inr [emptyPartial] \<and>
   operationParams scenario_env ''batch.json'' = Inr [batch_entry None (Some 9)]"
  using batch_expander [where env = scenario_env and sourceData = "[]"]
    batch_expander [where env = scenario_env and sourceData = "''batch.txt''"]
    batch_expander [where env = scenario_env and sourceData = "''batch.json''"
      and params = "[batch_entry None (Some 9)]"]
  by (simp add: scenario_env_def ends_with_def)

subsection \<open>Independence of the pipelines of a batch\<close>

text \<open>
  Claim C8. In a batch of two entries of which one resolves and the other fails
  validation with \<open>ValueError\<close>, in either order and however the host schedules the
  requests, \<^verbatim>\<open>executeOperation\<close> leaves the host as the pipeline of the resolving entry
  alone leaves it, and rejects with \<open>ValueError\<close>. When the target of the resolving entry
  exists, exactly one write is issued, and it carries the body of that entry.
\<close>

theorem batch_independence:
  assumes good: "buildConfigOptions env good = Inr options"
    and bad: "buildConfigOptions env bad = Inl ValueError"
  shows "executeOperation env [good, bad] sched h =
           (Inl ValueError, snd (getOperationStatus env good h)) \<and>
         executeOperation env [bad, good] sched h =
           (Inl ValueError, snd (getOperationStatus env good h)) \<and>
         ((repoOptions options, requestId (resourceOptions options)) \<in> set (issues h) \<longrightarrow>
            map call_body (writes_since h (snd (executeOperation env [good, bad] sched h))) =
              [commentMessage env options] \<and>
            map call_body (writes_since h (snd (executeOperation env [bad, good] sched h))) =
              [commentMessage env options])"
proof -
  let ?pl = "commentPayload env options"
  have st: "snd (getOperationStatus env good h) = settle (Listing ?pl) h"
    by (simp add: getOperationStatus_resolved [OF good] settle_Listing)
  have a: "executeOperation env [good, bad] sched h =
           (Inl ValueError, snd (getOperationStatus env good h))"
    using executeOperation_single [of 0 "[good, bad]" env ValueError sched h]
    by (simp add: launch_resolved [OF good] launch_failed [OF bad] st less_Suc_eq)
  have b: "executeOperation env [bad, good] sched h =
           (Inl ValueError, snd (getOperationStatus env good h))"
    using executeOperation_single [of 1 "[bad, good]" env ValueError sched h]
    by (simp add: launch_resolved [OF good] launch_failed [OF bad] st less_Suc_eq)
  have c: "map call_body (writes_since h (snd (getOperationStatus env good h))) =
           (if (repoOptions options, requestId (resourceOptions options)) \<in> set (issues h)
            then [commentMessage env options] else [])"
    using write_bodies_replaceComment [of h ?pl]
    by (simp add: getOperationStatus_resolved [OF good] commentPayload_target)
  show ?thesis by (simp add: a b c)
qed

text \<open>
  The entry without any identifier first, the entry for number 9 second, and the host
  serving the second pipeline between two turns of the first.
\<close>

theorem batch_independence_witness:
  "buildConfigOptions scenario_env (batch_entry None (Some 9)) = Inr (scenario_options 9) \<and>
   buildConfigOptions scenario_env emptyPartial = Inl ValueError \<and>
   fst (executeOperation scenario_env [emptyPartial, batch_entry None (Some 9)] [1, 0, 1]
          (scenario_host [])) = Inl ValueError \<and>
   map call_body
     (writes_since (scenario_host [])
        (snd (executeOperation scenario_env [emptyPartial, batch_entry None (Some 9)] [1, 0, 1]
                (scenario_host [])))) =
   [scenario_message]"
proof -
  have r: "buildConfigOptions scenario_env (batch_entry None (Some 9)) = Inr (scenario_options 9)"
    by (simp add: scenario_resolves)
  have i: "(repoOptions (scenario_options 9), requestId (resourceOptions (scenario_options 9)))
             \<in> set (issues (scenario_host []))"
    by (simp add: scenario_options_target scenario_host_facts)
  note b = batch_independence [OF r scenario_unresolved, of "[1, 0, 1]" "scenario_host []"]
  from b have "fst (executeOperation scenario_env [emptyPartial, batch_entry None (Some 9)]
      [1, 0, 1] (scenario_host [])) = Inl ValueError"
    by simp
  moreover from b i have "map call_body
     (writes_since (scenario_host [])
        (snd (executeOperation scenario_env [emptyPartial, batch_entry None (Some 9)] [1, 0, 1]
                (scenario_host [])))) =
     [commentMessage scenario_env (scenario_options 9)]"
    by blast
  ultimately show ?thesis
    using r scenario_unresolved by (simp add: scenario_message_eq)
qed

subsection \<open>Falsy explicit values\<close>

text \<open>
  Claim C9. An explicit theme or layout that is the empty string, and an explicit
  identifier that is 0, are ignored by resolution. The descriptor that resolution
  returns then has the theme, or the layout, of the single-run input. Its identifier is
  the one that the coercion yields for the single-run input when that input is not
  empty, and otherwise for the pull-request number of the ambient context; resolution
  fails as that coercion fails, and with \<open>ValueError\<close> when there is neither. In each
  case resolution returns what it returns for the same partial configuration without
  that field.
\<close>

theorem falsy_explicit_value_falls_through:
  "(chain (p_styleOptions options) p_theme = Some [] \<longrightarrow>
      (\<forall>cfg. buildConfigOptions env options = Inr cfg \<longrightarrow>
             theme (styleOptions cfg) = getProperty env ''theme'') \<and>
      buildConfigOptions env options = buildConfigOptions env (unset_theme options)) \<and>
   (chain (p_styleOptions options) p_layout = Some [] \<longrightarrow>
      (\<forall>cfg. buildConfigOptions env options = Inr cfg \<longrightarrow>
             layout (styleOptions cfg) = getProperty env ''layout'') \<and>
      buildConfigOptions env options = buildConfigOptions env (unset_layout options)) \<and>
   (chain (p_resourceOptions options) p_requestId = Some z \<and> int_of z = 0 \<longrightarrow>
      (getProperty env ''requestId'' \<noteq> [] \<longrightarrow>
         map_sum id (\<lambda>cfg. requestId (resourceOptions cfg)) (buildConfigOptions env options) =
           toInt (getProperty env ''requestId'')) \<and>
      (getProperty env ''requestId'' = [] \<longrightarrow>
         (case pull_request_number (github_context env) of
            None \<Rightarrow> buildConfigOptions env options = Inl ValueError
          | Some m \<Rightarrow>
              map_sum id (\<lambda>cfg. requestId (resourceOptions cfg))
                (buildConfigOptions env options) =
              toInt (show_int (int_of m)))) \<and>
      buildConfigOptions env options = buildConfigOptions env (unset_requestId options))"
proof (intro conjI impI allI)
  fix cfg
  assume a: "chain (p_styleOptions options) p_theme = Some []"
    and b: "buildConfigOptions env options = Inr cfg"
  from buildConfigOptions_style(1) [OF b] a
  show "theme (styleOptions cfg) = getProperty env ''theme''"
    by (simp add: resolveTheme_def str_or_def)
next
  assume a: "chain (p_styleOptions options) p_theme = Some []"
  then show "buildConfigOptions env options = buildConfigOptions env (unset_theme options)"
    by (intro buildConfigOptions_cong)
       (auto simp: resolver_defs unset_theme_def split: option.splits)
next
  fix cfg
  assume a: "chain (p_styleOptions options) p_layout = Some []"
    and b: "buildConfigOptions env options = Inr cfg"
  from buildConfigOptions_style(2) [OF b] a
  show "layout (styleOptions cfg) = getProperty env ''layout''"
    by (simp add: resolveLayout_def str_or_def)
next
  assume a: "chain (p_styleOptions options) p_layout = Some []"
  then show "buildConfigOptions env options = buildConfigOptions env (unset_layout options)"
    by (intro buildConfigOptions_cong)
       (auto simp: resolver_defs unset_layout_def split: option.splits)
next
  assume a: "chain (p_resourceOptions options) p_requestId = Some z \<and> int_of z = 0"
    and s: "getProperty env ''requestId'' \<noteq> []"
  then have "resolveRequestId env options = Str (getProperty env ''requestId'')"
    by (simp add: resolveRequestId_def js_or_def num_opt_def truthy_number_def)
  then show "map_sum id (\<lambda>cfg. requestId (resourceOptions cfg)) (buildConfigOptions env options) =
           toInt (getProperty env ''requestId'')"
    by (simp add: buildConfigOptions_Str split: sum.splits)
next
  assume a: "chain (p_resourceOptions options) p_requestId = Some z \<and> int_of z = 0"
    and s: "getProperty env ''requestId'' = []"
  then have c: "resolveRequestId env options = num_opt (pull_request_number (github_context env))"
    by (simp add: resolveRequestId_def js_or_def num_opt_def truthy_number_def)
  show "case pull_request_number (github_context env) of
            None \<Rightarrow> buildConfigOptions env options = Inl ValueError
          | Some m \<Rightarrow>
              map_sum id (\<lambda>cfg. requestId (resourceOptions cfg))
                (buildConfigOptions env options) =
              toInt (show_int (int_of m))"
  proof (cases "pull_request_number (github_context env)")
    case None
    with c show ?thesis by (simp add: num_opt_def buildConfigOptions_undefined)
  next
    case (Some m)
    with c have "resolveRequestId env options = Num m" by (simp add: num_opt_def)
    then have "buildConfigOptions env options =
        (case toInt (show_int (int_of m)) of
           Inl e \<Rightarrow> Inl e
         | Inr n \<Rightarrow>
             Inr \<lparr>styleOptions =
                    \<lparr>theme = resolveTheme env options, layout = resolveLayout env options\<rparr>,
                  resourceOptions = \<lparr>requestId = n\<rparr>,
                  repoOptions = ctx_repo (github_context env)\<rparr>)"
      by (simp add: buildConfigOptions_def isNullOrUndefined_def)
    with Some show ?thesis by (simp split: sum.splits)
  qed
next
  assume a: "chain (p_resourceOptions options) p_requestId = Some z \<and> int_of z = 0"
  then show "buildConfigOptions env options = buildConfigOptions env (unset_requestId options)"
    by (intro buildConfigOptions_cong)
       (auto simp: resolver_defs unset_requestId_def truthy_number_def split: option.splits)
qed

text \<open>
  The entry with an empty theme, an empty layout and the identifier 0: under the
  single-run inputs \<open>dark\<close> and \<open>7\<close> it resolves to them and to the default layout;
  run for pull request 12 it resolves to number 12.
\<close>

theorem falsy_explicit_value_falls_through_witness:
  "buildConfigOptions input_env falsy_entry =
     Inr \<lparr>styleOptions = \<lparr>theme = ''dark'', layout = ''classic''\<rparr>,
          resourceOptions = \<lparr>requestId = 7\<rparr>,
          repoOptions = scenario_repo\<rparr> \<and>
   buildConfigOptions pull_request_env falsy_entry = Inr (scenario_options 12)"
proof -
  have z: "int_of (jsint 0) = 0" and tw: "int_of (jsint 12) = 12"
    by (simp_all add: int_of_jsint)
  have c: "chain (p_styleOptions falsy_entry) p_theme = Some []"
    "chain (p_styleOptions falsy_entry) p_layout = Some []"
    "chain (p_resourceOptions falsy_entry) p_requestId = Some (jsint 0)"
    by (simp_all add: falsy_entry_def chain_def)
  have seven: "toInt ''7'' = Inr 7"
    by (simp add: toInt_def numeral_string_def is_digit_def parse_digits_def digit_val_def
        max_safe_integer_def)
  have twelve: "toInt (show_int 12) = Inr 12"
    by (simp add: toInt_show_int)
  have g: "getProperty input_env ''theme'' = ''dark''"
    "getProperty input_env ''layout'' = ''classic''"
    "getProperty input_env ''requestId'' = ''7''"
    "getProperty pull_request_env ''theme'' = ''light''"
    "getProperty pull_request_env ''layout'' = ''classic''"
    "getProperty pull_request_env ''requestId'' = []"
    "pull_request_number (github_context pull_request_env) = Some (jsint 12)"
    "ctx_repo (github_context input_env) = scenario_repo"
    "ctx_repo (github_context pull_request_env) = scenario_repo"
    by (simp_all add: input_env_def pull_request_env_def scenario_env_def getProperty_def)
  note f1 = falsy_explicit_value_falls_through [of falsy_entry input_env "jsint 0"]
  note f2 = falsy_explicit_value_falls_through [of falsy_entry pull_request_env "jsint 0"]
  from f1 c z g seven obtain cfg1 where
    b1: "buildConfigOptions input_env falsy_entry = Inr cfg1"
    and r1: "requestId (resourceOptions cfg1) = 7"
    by (cases "buildConfigOptions input_env falsy_entry") auto
  from f2 c z g twelve tw obtain cfg2 where
    b2: "buildConfigOptions pull_request_env falsy_entry = Inr cfg2"
    and r2: "requestId (resourceOptions cfg2) = 12"
    by (cases "buildConfigOptions pull_request_env falsy_entry") auto
  from f1 c b1 g have s1: "theme (styleOptions cfg1) = ''dark''"
    "layout (styleOptions cfg1) = ''classic''" by simp_all
  from f2 c b2 g have s2: "theme (styleOptions cfg2) = ''light''"
    "layout (styleOptions cfg2) = ''classic''" by simp_all
  from buildConfigOptions_style(3) [OF b1] buildConfigOptions_style(3) [OF b2] g
  have p: "repoOptions cfg1 = scenario_repo" "repoOptions cfg2 = scenario_repo" by simp_all
  have "cfg1 = \<lparr>styleOptions = \<lparr>theme = ''dark'', layout = ''classic''\<rparr>,
          resourceOptions = \<lparr>requestId = 7\<rparr>,
          repoOptions = scenario_repo\<rparr>"
    using s1 r1 p(1) by (cases cfg1) (auto intro: styleOptions.equality resourceOptions.equality)
  moreover have "cfg2 = scenario_options 12"
    using s2 r2 p(2)
    by (cases cfg2)
       (auto simp: scenario_options_def intro: styleOptions.equality resourceOptions.equality)
  ultimately show ?thesis using b1 b2 by simp
qed

subsection \<open>No host call after a failed resolution\<close>

text \<open>
  Claim C10. When the resolution of a partial configuration fails with \<open>ValueError\<close>,
  its pipeline ends with that error and leaves the host as it was: no request reaches
  the host, so no comment is listed, created or updated.
\<close>

theorem failed_resolution_no_host_call:
  assumes "buildConfigOptions env option = Inl ValueError"
  shows "getOperationStatus env option h = (Inl ValueError, h) \<and>
         calls_since h (snd (getOperationStatus env option h)) = []"
  using assms by (simp add: getOperationStatus_def calls_since_def)

theorem failed_resolution_no_host_call_witness:
  "buildConfigOptions scenario_env emptyPartial = Inl ValueError \<and>
   getOperationStatus scenario_env emptyPartial (scenario_host []) =
     (Inl ValueError, scenario_host [])"
  using failed_resolution_no_host_call [OF scenario_unresolved, of "scenario_host []"]
    scenario_unresolved
  by simp

end
